theory Spec2Isabelle
  imports Main
begin

section \<open>Python values, datetimes and JSON documents\<close>

text \<open>
  The record store of \<^verbatim>\<open>database/crud.py\<close> moves column values between ORM objects,
  dictionaries and JSON text. A column of the schema (\<^verbatim>\<open>database_models.py\<close>) holds an
  Integer, a String, a Boolean or a TIMESTAMP, or NULL; \<open>PObj\<close> stands for every other
  Python object (a \<^verbatim>\<open>date\<close>, a \<^verbatim>\<open>Decimal\<close>, a function, ...), carried with the
  name and the repr of its type, which is all the code reads of it, and a number that
  tells apart objects that do not compare equal.
\<close>

record datetime =
  year :: nat
  month :: nat
  day :: nat
  hour :: nat
  minute :: nat
  second :: nat
  microsecond :: nat

datatype pyval =
    PNone
  | PBool bool
  | PInt int
  | PStr string
  | PDatetime datetime
  | PObj string string nat

type_synonym pydict = "(string \<times> pyval) list"

text \<open>
  JSON text is represented by the document it denotes: \<^verbatim>\<open>json.dumps\<close> of a dictionary
  of column values is an object whose members are scalars, in the dictionary's order.
\<close>

datatype json_value = JNull | JBool bool | JNum int | JStr string

type_synonym json_object = "(string \<times> json_value) list"

datatype exn =
    HTTPException nat string
  | TypeError string
  | AttributeError string
  | IntegrityError string
  | ORMError string
  | MultipleResultsFound
  | ValidationError string
  | ExpiredSignatureError
  | JWTError

subsection \<open>Decimal digits\<close>

definition digit :: "nat \<Rightarrow> char" where
  "digit n = ''0123456789'' ! (n mod 10)"

definition zfill2 :: "nat \<Rightarrow> string" where
  "zfill2 n = [digit (n div 10), digit n]"

definition zfill4 :: "nat \<Rightarrow> string" where
  "zfill4 n = [digit (n div 1000), digit (n div 100), digit (n div 10), digit n]"

definition zfill6 :: "nat \<Rightarrow> string" where
  "zfill6 n = [digit (n div 100000), digit (n div 10000), digit (n div 1000),
               digit (n div 100), digit (n div 10), digit n]"

fun str_nat :: "nat \<Rightarrow> string" where
  "str_nat n = (if n < 10 then [digit n] else str_nat (n div 10) @ [digit n])"

declare str_nat.simps [simp del]

subsection \<open>datetime.isoformat\<close>

text \<open>
  \<^verbatim>\<open>datetime.isoformat()\<close> of a naive datetime (the TIMESTAMP columns carry no time
  zone): \<^verbatim>\<open>YYYY-MM-DDTHH:MM:SS\<close>, followed by \<^verbatim>\<open>.ffffff\<close> when the microsecond is
  not zero.
\<close>

definition isoformat :: "datetime \<Rightarrow> string" where
  "isoformat d =
     zfill4 (year d) @ ''-'' @ zfill2 (month d) @ ''-'' @ zfill2 (day d) @ ''T'' @
     zfill2 (hour d) @ '':'' @ zfill2 (minute d) @ '':'' @ zfill2 (second d) @
     (if microsecond d = 0 then [] else ''.'' @ zfill6 (microsecond d))"

subsection \<open>Types of values and str of exceptions\<close>

fun type_name :: "pyval \<Rightarrow> string" where
  "type_name PNone = ''NoneType''"
| "type_name (PBool b) = ''bool''"
| "type_name (PInt i) = ''int''"
| "type_name (PStr s) = ''str''"
| "type_name (PDatetime d) = ''datetime''"
| "type_name (PObj n r i) = n"

fun type_repr :: "pyval \<Rightarrow> string" where
  "type_repr PNone = ''<class 'NoneType'>''"
| "type_repr (PBool b) = ''<class 'bool'>''"
| "type_repr (PInt i) = ''<class 'int'>''"
| "type_repr (PStr s) = ''<class 'str'>''"
| "type_repr (PDatetime d) = ''<class 'datetime.datetime'>''"
| "type_repr (PObj n r i) = r"

text \<open>
  \<^verbatim>\<open>str(e)\<close>: an \<^verbatim>\<open>HTTPException\<close> prints its status and detail, as recent releases
  of the framework define \<^verbatim>\<open>__str__\<close> (older ones print the empty string, which
  changes the text of a detail and no status); every other exception prints its message.
\<close>

fun str_exn :: "exn \<Rightarrow> string" where
  "str_exn (HTTPException s d) = str_nat s @ '': '' @ d"
| "str_exn (TypeError msg) = msg"
| "str_exn (AttributeError msg) = msg"
| "str_exn (IntegrityError msg) = msg"
| "str_exn (ORMError msg) = msg"
| "str_exn MultipleResultsFound = ''Multiple rows were found when one or none was required''"
| "str_exn (ValidationError msg) = msg"
| "str_exn ExpiredSignatureError = ''Signature has expired.''"
| "str_exn JWTError = ''''"

section \<open>The serialization adapter\<close>

text \<open>
  \<^verbatim>\<open>json_serial\<close> (crud.py, lines 47-51) is the \<^verbatim>\<open>default\<close> hook of \<^verbatim>\<open>json.dumps\<close>:
  the encoder calls it on an object it cannot encode itself.
\<close>

definition json_serial :: "pyval \<Rightarrow> exn + string" where
  "json_serial obj =
     (case obj of
        PDatetime d \<Rightarrow> Inr (isoformat d)
      | _ \<Rightarrow> Inl (TypeError (''Type '' @ type_repr obj @ '' not serializable'')))"

text \<open>
  \<^verbatim>\<open>json.dumps(d)\<close> and \<^verbatim>\<open>json.dumps(d, default=f)\<close> on one value and on a dictionary
  with string keys, and \<^verbatim>\<open>json.loads\<close> back to Python values. The only hook this
  program passes returns a string, which the encoder then writes as a JSON string.
\<close>

fun json_encode :: "(pyval \<Rightarrow> exn + string) option \<Rightarrow> pyval \<Rightarrow> exn + json_value" where
  "json_encode f PNone = Inr JNull"
| "json_encode f (PBool b) = Inr (JBool b)"
| "json_encode f (PInt i) = Inr (JNum i)"
| "json_encode f (PStr s) = Inr (JStr s)"
| "json_encode None v =
     Inl (TypeError (''Object of type '' @ type_name v @ '' is not JSON serializable''))"
| "json_encode (Some f) v = (case f v of Inl e \<Rightarrow> Inl e | Inr s \<Rightarrow> Inr (JStr s))"

fun json_dumps :: "(pyval \<Rightarrow> exn + string) option \<Rightarrow> pydict \<Rightarrow> exn + json_object" where
  "json_dumps f [] = Inr []"
| "json_dumps f ((k, v) # kvs) =
     (case json_encode f v of
        Inl e \<Rightarrow> Inl e
      | Inr j \<Rightarrow>
          (case json_dumps f kvs of
             Inl e \<Rightarrow> Inl e
           | Inr js \<Rightarrow> Inr ((k, j) # js)))"

fun json_decode :: "json_value \<Rightarrow> pyval" where
  "json_decode JNull = PNone"
| "json_decode (JBool b) = PBool b"
| "json_decode (JNum i) = PInt i"
| "json_decode (JStr s) = PStr s"

definition json_loads :: "json_object \<Rightarrow> pydict" where
  "json_loads obj = map (\<lambda>(k, j). (k, json_decode j)) obj"

text \<open>
  The adapter as the store applies it (crud.py, lines 76, 84 and 122):
  \<^verbatim>\<open>json.loads(json.dumps(values, default=json_serial))\<close>.
\<close>

definition canonicalize :: "pydict \<Rightarrow> exn + pydict" where
  "canonicalize values =
     (case json_dumps (Some json_serial) values of
        Inl e \<Rightarrow> Inl e
      | Inr txt \<Rightarrow> Inr (json_loads txt))"

section \<open>The persistence layer\<close>

text \<open>
  A row maps the column names of its table to values. The audit log
  (\<^verbatim>\<open>AuditLogsDbModel\<close>) is kept apart from the other tables, with its two JSON columns
  typed as documents; statements that relate an operation to the audit log are therefore
  about record shapes other than the audit log itself. Only committed state is
  represented: what a session has added or changed and not yet committed is discarded by
  \<^verbatim>\<open>db.rollback()\<close>.
\<close>

type_synonym row = pydict

record audit_entry =
  ae_id :: int
  table_name :: string
  record_id :: pyval
  changed_by :: int
  old_values :: json_object
  new_values :: json_object
  timestamp :: datetime

record db =
  tables :: "string \<Rightarrow> row list"
  audit_logs :: "audit_entry list"

text \<open>
  The database engine is a collaborator of the repository. It enters as a parameter:
  the constraints it enforces at commit time (unique, NOT NULL, foreign keys), as a
  function giving the violation's message for a state it rejects, and the value of
  \<^verbatim>\<open>func.now()\<close>.
\<close>

record engine =
  constraint_violation :: "db \<Rightarrow> string option"
  func_now :: datetime

definition commit :: "engine \<Rightarrow> db \<Rightarrow> exn + db" where
  "commit E candidate =
     (case constraint_violation E candidate of
        None \<Rightarrow> Inr candidate
      | Some msg \<Rightarrow> Inl (IntegrityError msg))"

text \<open>
  A model class of \<^verbatim>\<open>database_models.py\<close>: its table name, its class name, its columns
  with their defaults, its relationship attributes, and its other class attributes
  (methods such as \<^verbatim>\<open>to_dict\<close>, \<^verbatim>\<open>__tablename__\<close>, what the base class gives) with
  their values. A relationship refers to one parent row through a foreign key column of
  the class's own table, or collects the rows of a child table whose foreign key column
  refers to the row.
\<close>

datatype column_default = NoDefault | AutoIncrement | ScalarDefault pyval | FuncNow

datatype relationship = ManyToOne string | OneToMany string string

record column =
  cname :: string
  cdefault :: column_default
  onupdate_now :: bool

record model =
  tablename :: string
  classname :: string
  columns :: "column list"
  relationships :: "(string \<times> relationship) list"
  plain_attrs :: "(string \<times> pyval) list"

definition column_names :: "model \<Rightarrow> string list" where
  "column_names m = map cname (columns m)"

text \<open>
  \<^verbatim>\<open>getattr(model, k)\<close> on the class: an instrumented column, a relationship, or a
  plain attribute; \<open>None\<close> when the class has no such attribute, which is when
  \<^verbatim>\<open>hasattr(model, k)\<close> is false.
\<close>

datatype class_attr = InstrumentedColumn | Relationship | PlainAttr pyval

definition class_getattr :: "model \<Rightarrow> string \<Rightarrow> class_attr option" where
  "class_getattr m k =
     (if k \<in> set (column_names m) then Some InstrumentedColumn
      else if k \<in> set (map fst (relationships m)) then Some Relationship
      else map_option PlainAttr (map_of (plain_attrs m) k))"

definition hasattr_model :: "model \<Rightarrow> string \<Rightarrow> bool" where
  "hasattr_model m k = (class_getattr m k \<noteq> None)"

definition getattr :: "row \<Rightarrow> string \<Rightarrow> pyval" where
  "getattr r c = (case map_of r c of Some v \<Rightarrow> v | None \<Rightarrow> PNone)"

definition repr_str :: "string \<Rightarrow> string" where
  "repr_str s = CHR 0x27 # s @ [CHR 0x27]"

text \<open>
  \<^verbatim>\<open>model.id == record_id\<close>, the criterion of \<^verbatim>\<open>update_record\<close> and
  \<^verbatim>\<open>delete_record\<close>: on a column it is the SQL equality test of the persistence layer,
  which for a value of the column's type holds on the rows that store that value. On a
  class whose \<^verbatim>\<open>id\<close> is no column the comparison is Python's: a plain attribute gives
  a boolean that \<^verbatim>\<open>query.filter\<close> takes as a constant condition, a relationship
  compared with a number is refused by the ORM (its message is represented by the
  attribute's name).
\<close>

definition attr_eq :: "model \<Rightarrow> string \<Rightarrow> pyval \<Rightarrow> exn + (row \<Rightarrow> bool)" where
  "attr_eq m k v =
     (case class_getattr m k of
        None \<Rightarrow>
          Inl (AttributeError (''type object '' @ repr_str (classname m) @
                               '' has no attribute '' @ repr_str k))
      | Some InstrumentedColumn \<Rightarrow> Inr (\<lambda>r. getattr r k = v)
      | Some Relationship \<Rightarrow> Inl (ORMError k)
      | Some (PlainAttr a) \<Rightarrow> Inr (\<lambda>r. a = v))"

text \<open>Query results: \<^verbatim>\<open>.first()\<close>, \<^verbatim>\<open>.one_or_none()\<close>.\<close>

definition query_first :: "'a list \<Rightarrow> 'a option" where
  "query_first rs = (case rs of [] \<Rightarrow> None | r # _ \<Rightarrow> Some r)"

definition one_or_none :: "'a list \<Rightarrow> exn + 'a option" where
  "one_or_none rs =
     (case rs of
        [] \<Rightarrow> Inr None
      | [r] \<Rightarrow> Inr (Some r)
      | _ \<Rightarrow> Inl MultipleResultsFound)"

subsection \<open>INSERT, UPDATE and DELETE of one row\<close>

text \<open>
  The declarative constructor \<^verbatim>\<open>model(**data)\<close> rejects a keyword that is no attribute
  of the class and then sets each attribute; \<^verbatim>\<open>setattr\<close> on a loaded object sets any
  name. Assigning a scalar to a relationship is an ORM error.
\<close>

fun init_kwargs :: "model \<Rightarrow> pydict \<Rightarrow> exn option" where
  "init_kwargs m [] = None"
| "init_kwargs m ((k, v) # kvs) =
     (case class_getattr m k of
        None \<Rightarrow>
          Some (TypeError (repr_str k @ '' is an invalid keyword argument for '' @ classname m))
      | Some Relationship \<Rightarrow> Some (ORMError k)
      | Some a \<Rightarrow> init_kwargs m kvs)"

fun setattr_all :: "model \<Rightarrow> pydict \<Rightarrow> exn option" where
  "setattr_all m [] = None"
| "setattr_all m ((k, v) # kvs) =
     (case class_getattr m k of
        Some Relationship \<Rightarrow> Some (ORMError k)
      | a \<Rightarrow> setattr_all m kvs)"

text \<open>
  The row an INSERT stores: a column takes the value set on the object; a column left
  unset, or set to \<^verbatim>\<open>None\<close>, takes its default (the next integer for an autoincrement
  key, \<^verbatim>\<open>func.now()\<close>, a constant) or NULL.
\<close>

definition next_id :: "string \<Rightarrow> row list \<Rightarrow> int" where
  "next_id c rows =
     fold (\<lambda>r acc. case getattr r c of PInt i \<Rightarrow> max acc (i + 1) | _ \<Rightarrow> acc) rows 1"

definition column_default_value :: "engine \<Rightarrow> row list \<Rightarrow> column \<Rightarrow> pyval" where
  "column_default_value E rows c =
     (case cdefault c of
        NoDefault \<Rightarrow> PNone
      | AutoIncrement \<Rightarrow> PInt (next_id (cname c) rows)
      | ScalarDefault v \<Rightarrow> v
      | FuncNow \<Rightarrow> PDatetime (func_now E))"

definition insert_row :: "engine \<Rightarrow> model \<Rightarrow> row list \<Rightarrow> pydict \<Rightarrow> row" where
  "insert_row E m rows data =
     map (\<lambda>c. (cname c,
                (case map_of data (cname c) of
                   None \<Rightarrow> column_default_value E rows c
                 | Some v \<Rightarrow> if v = PNone then column_default_value E rows c else v)))
         (columns m)"

text \<open>
  The row an UPDATE leaves: when no column attribute received a value different from the
  loaded one, no statement is issued; otherwise the columns that received a different
  value change, and every column with \<^verbatim>\<open>onupdate=func.now()\<close> that did not is
  refreshed.
\<close>

definition update_row :: "engine \<Rightarrow> model \<Rightarrow> row \<Rightarrow> pydict \<Rightarrow> row" where
  "update_row E m r data =
     (if list_all (\<lambda>c. case map_of data (cname c) of
                          None \<Rightarrow> True
                        | Some v \<Rightarrow> getattr r (cname c) = v) (columns m)
      then r
      else map (\<lambda>c. (cname c,
                     (case map_of data (cname c) of
                        Some v \<Rightarrow>
                          if onupdate_now c \<and> getattr r (cname c) = v
                          then PDatetime (func_now E)
                          else v
                      | None \<Rightarrow>
                          if onupdate_now c then PDatetime (func_now E)
                          else getattr r (cname c))))
               (columns m))"

fun replace_first :: "('a \<Rightarrow> bool) \<Rightarrow> 'a \<Rightarrow> 'a list \<Rightarrow> 'a list" where
  "replace_first P y [] = []"
| "replace_first P y (x # xs) = (if P x then y # xs else x # replace_first P y xs)"

fun delete_first :: "('a \<Rightarrow> bool) \<Rightarrow> 'a list \<Rightarrow> 'a list" where
  "delete_first P [] = []"
| "delete_first P (x # xs) = (if P x then xs else x # delete_first P xs)"

definition set_table :: "db \<Rightarrow> string \<Rightarrow> row list \<Rightarrow> db" where
  "set_table d t rows = d\<lparr>tables := (tables d)(t := rows)\<rparr>"

text \<open>
  \<^verbatim>\<open>db.delete(record)\<close> on a row with collections: the relationships declare no cascade,
  so in the flush that deletes the row the ORM sets to \<^verbatim>\<open>NULL\<close> the foreign key of every
  child row that refers to it.
\<close>

definition set_column :: "string \<Rightarrow> pyval \<Rightarrow> row \<Rightarrow> row" where
  "set_column c v r = map (\<lambda>kv. if fst kv = c then (c, v) else kv) r"

fun detach_children :: "(string \<times> relationship) list \<Rightarrow> pyval \<Rightarrow> db \<Rightarrow> db" where
  "detach_children [] pk d = d"
| "detach_children ((name, ManyToOne fk) # rest) pk d = detach_children rest pk d"
| "detach_children ((name, OneToMany child fk) # rest) pk d =
     detach_children rest pk
       (set_table d child
          (map (\<lambda>r. if getattr r fk = pk then set_column fk PNone r else r) (tables d child)))"

text \<open>
  \<^verbatim>\<open>{c.name: getattr(record, c.name) for c in record.__table__.columns}\<close>
\<close>

definition snapshot :: "model \<Rightarrow> row \<Rightarrow> pydict" where
  "snapshot m record = map (\<lambda>c. (cname c, getattr record (cname c))) (columns m)"

section \<open>The audit recorder (audit\_track/audit\_log.py)\<close>

definition next_audit_id :: "audit_entry list \<Rightarrow> int" where
  "next_audit_id es = fold (\<lambda>e acc. max acc (ae_id e + 1)) es 1"

text \<open>
  \<^verbatim>\<open>add_audit_log\<close> dumps both dictionaries with the plain encoder (no \<^verbatim>\<open>default\<close>
  hook), adds one entry and commits. It has no handler of its own: what it raises
  reaches the caller's \<^verbatim>\<open>except\<close>.
\<close>

definition add_audit_log ::
  "engine \<Rightarrow> db \<Rightarrow> string \<Rightarrow> pyval \<Rightarrow> int \<Rightarrow> pydict \<Rightarrow> pydict \<Rightarrow> db \<times> (exn + unit)" where
  "add_audit_log E d tname rid uid old new =
     (case json_dumps None old of
        Inl e \<Rightarrow> (d, Inl e)
      | Inr old_text \<Rightarrow>
     (case json_dumps None new of
        Inl e \<Rightarrow> (d, Inl e)
      | Inr new_text \<Rightarrow>
     (case commit E (d\<lparr>audit_logs := audit_logs d @
                        [\<lparr>ae_id = next_audit_id (audit_logs d), table_name = tname,
                          record_id = rid, changed_by = uid, old_values = old_text,
                          new_values = new_text, timestamp = func_now E\<rparr>]\<rparr>) of
        Inl e \<Rightarrow> (d, Inl e)
      | Inr d' \<Rightarrow> (d', Inr ()))))"

section \<open>The record store (database/crud.py)\<close>

text \<open>
  Each operation is a \<^verbatim>\<open>try\<close> body and its handler. The body returns the committed
  state it has reached together with its result or the exception it raised; the handler
  \<^verbatim>\<open>except Exception\<close> calls \<^verbatim>\<open>db.rollback()\<close>, which leaves the committed state as
  it is, and raises status 500 with the exception's text.
\<close>

definition instance_id :: "model \<Rightarrow> row \<Rightarrow> exn + pyval" where
  "instance_id m record =
     (case class_getattr m ''id'' of
        None \<Rightarrow>
          Inl (AttributeError (repr_str (classname m) @ '' object has no attribute '' @
                               repr_str ''id''))
      | Some InstrumentedColumn \<Rightarrow> Inr (getattr record ''id'')
      | Some Relationship \<Rightarrow> Inl (ORMError ''id'')
      | Some (PlainAttr a) \<Rightarrow> Inr a)"

definition create_record_body ::
  "engine \<Rightarrow> db \<Rightarrow> model \<Rightarrow> pydict \<Rightarrow> int \<Rightarrow> db \<times> (exn + row)" where
  "create_record_body E d m data current_user_id =
     (case init_kwargs m data of
        Some e \<Rightarrow> (d, Inl e)
      | None \<Rightarrow>
          (let new_record = insert_row E m (tables d (tablename m)) data in
           case commit E (set_table d (tablename m) (tables d (tablename m) @ [new_record])) of
             Inl e \<Rightarrow> (d, Inl e)
           | Inr d1 \<Rightarrow>
               (case instance_id m new_record of
                  Inl e \<Rightarrow> (d1, Inl e)
                | Inr new_id \<Rightarrow>
                    (case add_audit_log E d1 (tablename m) new_id current_user_id [] data of
                       (d2, Inl e) \<Rightarrow> (d2, Inl e)
                     | (d2, Inr u) \<Rightarrow> (d2, Inr new_record)))))"

definition create_record ::
  "engine \<Rightarrow> db \<Rightarrow> model \<Rightarrow> pydict \<Rightarrow> int \<Rightarrow> db \<times> (exn + row)" where
  "create_record E d m data current_user_id =
     (case create_record_body E d m data current_user_id of
        (d', Inr new_record) \<Rightarrow> (d', Inr new_record)
      | (d', Inl e) \<Rightarrow>
          (d', Inl (HTTPException 500 (''Error creating record: '' @ str_exn e))))"

definition update_record_body ::
  "engine \<Rightarrow> db \<Rightarrow> model \<Rightarrow> int \<Rightarrow> pydict \<Rightarrow> int \<Rightarrow> db \<times> (exn + row)" where
  "update_record_body E d m rid data current_user_id =
     (case attr_eq m ''id'' (PInt rid) of
        Inl e \<Rightarrow> (d, Inl e)
      | Inr has_id \<Rightarrow>
     (case query_first (filter has_id (tables d (tablename m))) of
        None \<Rightarrow> (d, Inl (HTTPException 404 (classname m @ '' not found'')))
      | Some record \<Rightarrow>
     (case canonicalize (snapshot m record) of
        Inl e \<Rightarrow> (d, Inl e)
      | Inr old_values_serializable \<Rightarrow>
     (case setattr_all m data of
        Some e \<Rightarrow> (d, Inl e)
      | None \<Rightarrow>
     (case commit E (set_table d (tablename m)
                      (replace_first has_id (update_row E m record data)
                         (tables d (tablename m)))) of
        Inl e \<Rightarrow> (d, Inl e)
      | Inr d1 \<Rightarrow>
     (case canonicalize data of
        Inl e \<Rightarrow> (d1, Inl e)
      | Inr new_values_serializable \<Rightarrow>
     (case add_audit_log E d1 (tablename m) (PInt rid) current_user_id
             old_values_serializable new_values_serializable of
        (d2, Inl e) \<Rightarrow> (d2, Inl e)
      | (d2, Inr u) \<Rightarrow> (d2, Inr (update_row E m record data)))))))))"

definition update_record ::
  "engine \<Rightarrow> db \<Rightarrow> model \<Rightarrow> int \<Rightarrow> pydict \<Rightarrow> int \<Rightarrow> db \<times> (exn + row)" where
  "update_record E d m rid data current_user_id =
     (case update_record_body E d m rid data current_user_id of
        (d', Inr record) \<Rightarrow> (d', Inr record)
      | (d', Inl e) \<Rightarrow>
          (d', Inl (HTTPException 500 (''Error updating record: '' @ str_exn e))))"

definition delete_record_body ::
  "engine \<Rightarrow> db \<Rightarrow> model \<Rightarrow> int \<Rightarrow> int \<Rightarrow> db \<times> (exn + pydict)" where
  "delete_record_body E d m rid current_user_id =
     (case attr_eq m ''id'' (PInt rid) of
        Inl e \<Rightarrow> (d, Inl e)
      | Inr has_id \<Rightarrow>
     (case query_first (filter has_id (tables d (tablename m))) of
        None \<Rightarrow> (d, Inl (HTTPException 404 (classname m @ '' not found'')))
      | Some record \<Rightarrow>
     (case canonicalize (snapshot m record) of
        Inl e \<Rightarrow> (d, Inl e)
      | Inr old_values_serializable \<Rightarrow>
     (case commit E (detach_children (relationships m) (getattr record ''id'')
                      (set_table d (tablename m)
                         (delete_first has_id (tables d (tablename m))))) of
        Inl e \<Rightarrow> (d, Inl e)
      | Inr d1 \<Rightarrow>
     (case add_audit_log E d1 (tablename m) (PInt rid) current_user_id
             old_values_serializable [] of
        (d2, Inl e) \<Rightarrow> (d2, Inl e)
      | (d2, Inr u) \<Rightarrow>
          (d2, Inr [(''message'', PStr ''record deleted successfully'')]))))))"

definition delete_record ::
  "engine \<Rightarrow> db \<Rightarrow> model \<Rightarrow> int \<Rightarrow> int \<Rightarrow> db \<times> (exn + pydict)" where
  "delete_record E d m rid current_user_id =
     (case delete_record_body E d m rid current_user_id of
        (d', Inr msg) \<Rightarrow> (d', Inr msg)
      | (d', Inl e) \<Rightarrow>
          (d', Inl (HTTPException 500 (''Error deleting record: '' @ str_exn e))))"

definition fetch_all_records :: "db \<Rightarrow> model \<Rightarrow> row list" where
  "fetch_all_records d m = tables d (tablename m)"

section \<open>The lookup engine (fetch\_record)\<close>

text \<open>
  Python's \<^verbatim>\<open>==\<close> on two values: \<^verbatim>\<open>True\<close> and \<^verbatim>\<open>False\<close> equal the integers 1 and
  0, every other pair is equal when the values are the same.
\<close>

text \<open>
  What \<^verbatim>\<open>query.filter\<close> receives: the comparison of a column with a bound value, a
  Python boolean (rendered as a constant condition), or the test that no row of a child
  table refers to the row.
\<close>

datatype criterion = ColumnEq string pyval | Literal bool | NoRelated string string

fun py_eq :: "pyval \<Rightarrow> pyval \<Rightarrow> bool" where
  "py_eq (PBool a) (PInt i) = (i = (if a then 1 else 0))"
| "py_eq (PInt i) (PBool a) = (i = (if a then 1 else 0))"
| "py_eq x y = (x = y)"

text \<open>
  \<^verbatim>\<open>getattr(model, attr) == value\<close> in \<^verbatim>\<open>fetch_record\<close>. On a column it is an SQL
  comparison with the value as bound parameter; on a plain attribute it is Python's
  \<^verbatim>\<open>==\<close>, a boolean. A relationship compared with \<^verbatim>\<open>None\<close> is the test that the
  row has no parent (its foreign key \<^verbatim>\<open>IS NULL\<close>) or no child (\<^verbatim>\<open>NOT EXISTS\<close> over
  the child table); compared with a scalar it is refused by the ORM at once (the message
  is represented by the attribute's name).
\<close>

definition filter_criterion :: "model \<Rightarrow> string \<Rightarrow> pyval \<Rightarrow> exn + criterion" where
  "filter_criterion m k v =
     (case class_getattr m k of
        None \<Rightarrow>
          Inl (AttributeError (''type object '' @ repr_str (classname m) @
                               '' has no attribute '' @ repr_str k))
      | Some InstrumentedColumn \<Rightarrow> Inr (ColumnEq k v)
      | Some Relationship \<Rightarrow>
          (if v = PNone
           then (case map_of (relationships m) k of
                   None \<Rightarrow> Inl (ORMError k)
                 | Some (ManyToOne fk) \<Rightarrow> Inr (ColumnEq fk PNone)
                 | Some (OneToMany child fk) \<Rightarrow> Inr (NoRelated child fk))
           else Inl (ORMError k))
      | Some (PlainAttr a) \<Rightarrow> Inr (Literal (py_eq a v)))"

text \<open>
  The loop over \<^verbatim>\<open>filter_params.items()\<close>: each key passes the guard
  \<^verbatim>\<open>hasattr(model, attr)\<close> and adds its criterion to the query, or raises status 400.
\<close>

fun add_filters :: "model \<Rightarrow> pydict \<Rightarrow> criterion list \<Rightarrow> exn + criterion list" where
  "add_filters m [] query = Inr query"
| "add_filters m ((attr, v) # rest) query =
     (if hasattr_model m attr
      then (case filter_criterion m attr v of
              Inl e \<Rightarrow> Inl e
            | Inr c \<Rightarrow> add_filters m rest (query @ [c]))
      else Inl (HTTPException 400 (''Invalid filter parameter: '' @ attr)))"

text \<open>
  \<^verbatim>\<open>query.all()\<close> sends the statement to the engine. How the engine evaluates
  \<^verbatim>\<open>column = :value\<close> is a parameter, like its constraints: for a table, a column and a
  bound value it gives the test on the stored value (for \<^verbatim>\<open>None\<close> the ORM renders
  \<^verbatim>\<open>IS NULL\<close>), or the message of the error raised when the statement cannot be
  executed with that value. Engines differ in the values they accept and in how they
  convert a value that is not of the column's type.
\<close>

type_synonym comparator = "string \<Rightarrow> string \<Rightarrow> pyval \<Rightarrow> string + (pyval \<Rightarrow> bool)"

definition run_criterion ::
  "comparator \<Rightarrow> db \<Rightarrow> string \<Rightarrow> criterion \<Rightarrow> exn + (row \<Rightarrow> bool)" where
  "run_criterion sql_equal d t c =
     (case c of
        ColumnEq k v \<Rightarrow>
          (case sql_equal t k v of
             Inl msg \<Rightarrow> Inl (ORMError msg)
           | Inr test \<Rightarrow> Inr (\<lambda>r. test (getattr r k)))
      | Literal b \<Rightarrow> Inr (\<lambda>r. b)
      | NoRelated child fk \<Rightarrow>
          Inr (\<lambda>r. \<not> list_ex (\<lambda>x. getattr x fk = getattr r ''id'') (tables d child)))"

fun run_criteria ::
  "comparator \<Rightarrow> db \<Rightarrow> string \<Rightarrow> criterion list \<Rightarrow> exn + (row \<Rightarrow> bool) list" where
  "run_criteria sql_equal d t [] = Inr []"
| "run_criteria sql_equal d t (c # cs) =
     (case run_criterion sql_equal d t c of
        Inl e \<Rightarrow> Inl e
      | Inr test \<Rightarrow>
          (case run_criteria sql_equal d t cs of
             Inl e \<Rightarrow> Inl e
           | Inr tests \<Rightarrow> Inr (test # tests)))"

definition query_all :: "comparator \<Rightarrow> db \<Rightarrow> model \<Rightarrow> criterion list \<Rightarrow> exn + row list" where
  "query_all sql_equal d m query =
     (case run_criteria sql_equal d (tablename m) query of
        Inl e \<Rightarrow> Inl e
      | Inr tests \<Rightarrow>
          Inr (filter (\<lambda>r. list_all (\<lambda>test. test r) tests) (tables d (tablename m))))"

definition fetch_record_body :: "comparator \<Rightarrow> db \<Rightarrow> model \<Rightarrow> pydict \<Rightarrow> exn + row" where
  "fetch_record_body sql_equal d m filter_params =
     (case add_filters m filter_params [] of
        Inl e \<Rightarrow> Inl e
      | Inr query \<Rightarrow>
          (case query_all sql_equal d m query of
             Inl e \<Rightarrow> Inl e
           | Inr [] \<Rightarrow> Inl (HTTPException 404 ''Record not found'')
           | Inr [r] \<Rightarrow> Inr r
           | Inr records \<Rightarrow> Inl (HTTPException 300 ''Multiple records found'')))"

text \<open>
  The handlers of \<^verbatim>\<open>fetch_record\<close>: an \<^verbatim>\<open>HTTPException\<close> is raised again as it is,
  any other exception becomes status 500.
\<close>

definition fetch_record :: "comparator \<Rightarrow> db \<Rightarrow> model \<Rightarrow> pydict \<Rightarrow> exn + row" where
  "fetch_record sql_equal d m filter_params =
     (case fetch_record_body sql_equal d m filter_params of
        Inr r \<Rightarrow> Inr r
      | Inl (HTTPException s detail) \<Rightarrow> Inl (HTTPException s detail)
      | Inl e \<Rightarrow> Inl (HTTPException 500 (''Error fetching record: '' @ str_exn e)))"

section \<open>The schema (database/database\_models.py)\<close>

text \<open>
  Modelled from the spec: the base class of the model classes, \<^verbatim>\<open>Base\<close> of
  database/database\_connection.py, which is not among the sources; the specification
  says of it only that the record shapes were read by reflective ORM column
  introspection. \<open>inherited_attrs\<close> lists the attributes that a mapped class has without
  declaring them when \<^verbatim>\<open>Base\<close> is what SQLAlchemy's \<^verbatim>\<open>declarative_base()\<close> returns:
  those of the base and of the mapping, and those of \<^verbatim>\<open>object\<close> and \<^verbatim>\<open>type\<close> on
  CPython 3.11 (the set varies a little with the versions). \<^verbatim>\<open>__abstract__\<close> is
  \<^verbatim>\<open>True\<close>, \<^verbatim>\<open>__text_signature__\<close> is \<^verbatim>\<open>None\<close>, \<^verbatim>\<open>__itemsize__\<close> is 0; the others
  are functions, descriptors, tuples and registries, which equal no filter value and are
  represented as opaque objects, as are the four integers of the interpreter's memory
  layout (\<^verbatim>\<open>__basicsize__\<close>, \<^verbatim>\<open>__dictoffset__\<close>, \<^verbatim>\<open>__flags__\<close>,
  \<^verbatim>\<open>__weakrefoffset__\<close>), whose values depend on the build. \<open>own_attrs\<close> lists the
  attributes that every class statement sets (the classes have no docstring).
\<close>

definition opaque :: "nat \<Rightarrow> pyval" where
  "opaque i = PObj ''object'' ''<class 'object'>'' i"

definition inherited_names :: "string list" where
  "inherited_names =
     [''metadata'', ''registry'', ''__table__'', ''__mapper__'', ''_sa_class_manager'',
      ''__init__'', ''__class__'', ''__delattr__'', ''__dir__'', ''__eq__'',
      ''__format__'', ''__ge__'', ''__getattribute__'', ''__getstate__'', ''__gt__'',
      ''__hash__'', ''__init_subclass__'', ''__le__'', ''__lt__'', ''__ne__'', ''__new__'',
      ''__reduce__'', ''__reduce_ex__'', ''__repr__'', ''__setattr__'', ''__sizeof__'',
      ''__str__'', ''__subclasshook__'', ''__dict__'', ''__weakref__'', ''__annotations__'',
      ''__base__'', ''__bases__'', ''__basicsize__'', ''__call__'', ''__dictoffset__'',
      ''__flags__'', ''__instancecheck__'', ''__mro__'', ''__or__'',
      ''__ror__'', ''__prepare__'', ''__subclasscheck__'', ''__subclasses__'',
      ''__weakrefoffset__'', ''mro'']"

definition inherited_attrs :: "(string \<times> pyval) list" where
  "inherited_attrs =
     (''__abstract__'', PBool True) # (''__text_signature__'', PNone) #
     (''__itemsize__'', PInt 0) #
     map (\<lambda>(i, n). (n, opaque i)) (enumerate 2 inherited_names)"

definition own_attrs :: "string \<Rightarrow> string \<Rightarrow> (string \<times> pyval) list" where
  "own_attrs table cls =
     [(''__tablename__'', PStr table), (''__name__'', PStr cls), (''__qualname__'', PStr cls),
      (''__module__'', PStr ''database.database_models''), (''__doc__'', PNone)]"

text \<open>
  The model classes the theorems are evaluated on, as database\_models.py declares them:
  columns, relationships (the side that holds the foreign key refers to one parent, the
  other side collects the children) and methods.
\<close>

definition timestamps :: "column list" where
  "timestamps =
     [\<lparr>cname = ''created_at'', cdefault = FuncNow, onupdate_now = False\<rparr>,
      \<lparr>cname = ''updated_at'', cdefault = FuncNow, onupdate_now = True\<rparr>]"

definition RolesDbModel :: model where
  "RolesDbModel =
     \<lparr>tablename = ''roles'', classname = ''RolesDbModel'',
      columns =
        [\<lparr>cname = ''id'', cdefault = AutoIncrement, onupdate_now = False\<rparr>,
         \<lparr>cname = ''name'', cdefault = NoDefault, onupdate_now = False\<rparr>,
         \<lparr>cname = ''description'', cdefault = NoDefault, onupdate_now = False\<rparr>] @ timestamps,
      relationships = [(''users'', OneToMany ''users'' ''role_id'')],
      plain_attrs = own_attrs ''roles'' ''RolesDbModel'' @ inherited_attrs\<rparr>"

definition UserDbModel :: model where
  "UserDbModel =
     \<lparr>tablename = ''users'', classname = ''UserDbModel'',
      columns =
        [\<lparr>cname = ''id'', cdefault = AutoIncrement, onupdate_now = False\<rparr>,
         \<lparr>cname = ''email_id'', cdefault = NoDefault, onupdate_now = False\<rparr>,
         \<lparr>cname = ''password'', cdefault = NoDefault, onupdate_now = False\<rparr>,
         \<lparr>cname = ''verification_code'', cdefault = NoDefault, onupdate_now = False\<rparr>,
         \<lparr>cname = ''confirmed'', cdefault = ScalarDefault (PBool False), onupdate_now = False\<rparr>,
         \<lparr>cname = ''role_id'', cdefault = NoDefault, onupdate_now = False\<rparr>] @ timestamps,
      relationships =
        [(''role'', ManyToOne ''role_id''),
         (''property_types'', OneToMany ''property_types'' ''created_by_user''),
         (''property_config'', OneToMany ''property_config'' ''created_by_user''),
         (''property_address'', OneToMany ''property_address'' ''created_by_user''),
         (''amenities'', OneToMany ''amenities'' ''created_by_user'')],
      plain_attrs =
        (''to_dict_name_role'', PObj ''function'' ''<class 'function'>'' 0) #
        own_attrs ''users'' ''UserDbModel'' @ inherited_attrs\<rparr>"

definition AmenitiesDbModel :: model where
  "AmenitiesDbModel =
     \<lparr>tablename = ''amenities'', classname = ''AmenitiesDbModel'',
      columns =
        [\<lparr>cname = ''id'', cdefault = AutoIncrement, onupdate_now = False\<rparr>,
         \<lparr>cname = ''name'', cdefault = NoDefault, onupdate_now = False\<rparr>,
         \<lparr>cname = ''description'', cdefault = NoDefault, onupdate_now = False\<rparr>,
         \<lparr>cname = ''created_by_user'', cdefault = NoDefault, onupdate_now = False\<rparr>] @ timestamps,
      relationships = [(''user'', ManyToOne ''created_by_user'')],
      plain_attrs =
        (''to_dict'', PObj ''function'' ''<class 'function'>'' 1) #
        own_attrs ''amenities'' ''AmenitiesDbModel'' @ inherited_attrs\<rparr>"

section \<open>The authorization gate (security.py)\<close>

text \<open>
  Modelled from the spec: the credential verifier, \<^verbatim>\<open>jwt.decode\<close> of the jose library,
  which is no part of the repository (``\<^verbatim>\<open>verify(token)\<close> gives subject and expiry, or a
  signature/expiry failure''). A bearer token is represented by what the verifier
  finds in it: whether it parses, whether its signature is valid under the server's key,
  and its \<^verbatim>\<open>sub\<close> and \<^verbatim>\<open>exp\<close> claims. The signature is checked before the claims;
  \<^verbatim>\<open>ExpiredSignatureError\<close> is raised when \<^verbatim>\<open>exp\<close> is before the current time.
\<close>

record credential =
  well_formed :: bool
  signature_valid :: bool
  claim_sub :: "string option"
  claim_exp :: "int option"

definition jwt_decode :: "int \<Rightarrow> credential \<Rightarrow> exn + string option" where
  "jwt_decode utcnow token =
     (if \<not> well_formed token then Inl JWTError
      else if \<not> signature_valid token then Inl JWTError
      else (case claim_exp token of
              None \<Rightarrow> Inr (claim_sub token)
            | Some e \<Rightarrow> if e < utcnow then Inl ExpiredSignatureError else Inr (claim_sub token)))"

definition credentials_exception :: exn where
  "credentials_exception = HTTPException 401 ''Could not validate credentials''"

definition token_expired_exception :: exn where
  "token_expired_exception = HTTPException 401 ''Token has expired''"

record UserUpdate =
  email :: string
  user_id :: int

definition get_user :: "string \<Rightarrow> db \<Rightarrow> row option" where
  "get_user e d =
     query_first (filter (\<lambda>u. getattr u ''email_id'' = PStr e) (tables d (tablename UserDbModel)))"

text \<open>
  \<^verbatim>\<open>get_current_user_from_token\<close>: the handler for \<^verbatim>\<open>ExpiredSignatureError\<close> stands
  before the one for its base class \<^verbatim>\<open>JWTError\<close>; the \<^verbatim>\<open>HTTPException\<close> raised inside
  the \<^verbatim>\<open>try\<close> for a missing subject passes both. \<^verbatim>\<open>UserUpdate(email=..., id=...)\<close>
  validates its fields.
\<close>

definition get_current_user_from_token :: "int \<Rightarrow> db \<Rightarrow> credential \<Rightarrow> exn + UserUpdate" where
  "get_current_user_from_token utcnow d token =
     (case jwt_decode utcnow token of
        Inl ExpiredSignatureError \<Rightarrow> Inl token_expired_exception
      | Inl JWTError \<Rightarrow> Inl credentials_exception
      | Inl e \<Rightarrow> Inl e
      | Inr None \<Rightarrow> Inl credentials_exception
      | Inr (Some e) \<Rightarrow>
          (case get_user e d of
             None \<Rightarrow> Inl credentials_exception
           | Some user \<Rightarrow>
               (case (getattr user ''email_id'', getattr user ''id'') of
                  (PStr a, PInt i) \<Rightarrow> Inr \<lparr>email = a, user_id = i\<rparr>
                | _ \<Rightarrow> Inl (ValidationError ''UserUpdate''))))"

definition role_by_name :: "db \<Rightarrow> string \<Rightarrow> exn + row option" where
  "role_by_name d n =
     one_or_none (filter (\<lambda>r. getattr r ''name'' = PStr n) (tables d (tablename RolesDbModel)))"

definition user_by_id :: "db \<Rightarrow> int \<Rightarrow> exn + row option" where
  "user_by_id d i =
     one_or_none (filter (\<lambda>u. getattr u ''id'' = PInt i) (tables d (tablename UserDbModel)))"

definition none_has_no_attribute :: "string \<Rightarrow> exn" where
  "none_has_no_attribute a =
     AttributeError (repr_str ''NoneType'' @ '' object has no attribute '' @ repr_str a)"

definition get_role_ids :: "db \<Rightarrow> exn + pyval \<times> pyval \<times> pyval" where
  "get_role_ids d =
     (case role_by_name d ''admin'' of
        Inl e \<Rightarrow> Inl e
      | Inr None \<Rightarrow> Inl (HTTPException 500 ''Admin role not found in the database'')
      | Inr (Some admin_role) \<Rightarrow>
     (case role_by_name d ''superAdmin'' of
        Inl e \<Rightarrow> Inl e
      | Inr None \<Rightarrow> Inl (HTTPException 500 ''Super Admin role not found in the database'')
      | Inr (Some super_admin_role) \<Rightarrow>
     (case role_by_name d ''endUser'' of
        Inl e \<Rightarrow> Inl e
      | Inr None \<Rightarrow> Inl (HTTPException 500 ''End User role not found in the database'')
      | Inr (Some end_user_role) \<Rightarrow>
          Inr (getattr admin_role ''id'', getattr super_admin_role ''id'',
               getattr end_user_role ''id''))))"

text \<open>
  The gates, as functions of the user the token resolved to. In
  \<^verbatim>\<open>user_in_db.role_id != super_admin_role.id\<close> the left operand is evaluated first, and
  reading an attribute of \<^verbatim>\<open>None\<close> raises \<^verbatim>\<open>AttributeError\<close>.
\<close>

definition super_admin_required :: "db \<Rightarrow> UserUpdate \<Rightarrow> exn + UserUpdate" where
  "super_admin_required d current_user =
     (case role_by_name d ''superAdmin'' of
        Inl e \<Rightarrow> Inl e
      | Inr super_admin_role \<Rightarrow>
     (case user_by_id d (user_id current_user) of
        Inl e \<Rightarrow> Inl e
      | Inr None \<Rightarrow> Inl (none_has_no_attribute ''role_id'')
      | Inr (Some user_in_db) \<Rightarrow>
     (case super_admin_role of
        None \<Rightarrow> Inl (none_has_no_attribute ''id'')
      | Some r \<Rightarrow>
          if getattr user_in_db ''role_id'' \<noteq> getattr r ''id''
          then Inl (HTTPException 403 ''Forbidden - Super Admin access required.'')
          else Inr current_user)))"

definition admin_required :: "db \<Rightarrow> UserUpdate \<Rightarrow> exn + UserUpdate" where
  "admin_required d current_user =
     (case role_by_name d ''admin'' of
        Inl e \<Rightarrow> Inl e
      | Inr admin_role \<Rightarrow>
     (case user_by_id d (user_id current_user) of
        Inl e \<Rightarrow> Inl e
      | Inr None \<Rightarrow> Inl (none_has_no_attribute ''role_id'')
      | Inr (Some user_in_db) \<Rightarrow>
     (case admin_role of
        None \<Rightarrow> Inl (none_has_no_attribute ''id'')
      | Some r \<Rightarrow>
          if getattr user_in_db ''role_id'' \<noteq> getattr r ''id''
          then Inl (HTTPException 403 ''Forbidden - Admin access required.'')
          else Inr current_user)))"

definition super_admin_or_admin_required :: "db \<Rightarrow> UserUpdate \<Rightarrow> exn + UserUpdate" where
  "super_admin_or_admin_required d current_user =
     (case get_role_ids d of
        Inl e \<Rightarrow> Inl e
      | Inr (admin_role_id, super_admin_role_id, end_user_role_id) \<Rightarrow>
     (case user_by_id d (user_id current_user) of
        Inl e \<Rightarrow> Inl e
      | Inr None \<Rightarrow> Inl (none_has_no_attribute ''role_id'')
      | Inr (Some user_in_db) \<Rightarrow>
          if getattr user_in_db ''role_id'' \<in> {admin_role_id, super_admin_role_id}
          then Inr current_user
          else Inl (HTTPException 403 ''Access denied.'')))"

definition is_super_admin :: "db \<Rightarrow> UserUpdate \<Rightarrow> exn + bool" where
  "is_super_admin d current_user =
     (case role_by_name d ''superAdmin'' of
        Inl e \<Rightarrow> Inl e
      | Inr super_admin_role \<Rightarrow>
     (case user_by_id d (user_id current_user) of
        Inl e \<Rightarrow> Inl e
      | Inr None \<Rightarrow> Inl (none_has_no_attribute ''role_id'')
      | Inr (Some user_in_db) \<Rightarrow>
     (case super_admin_role of
        None \<Rightarrow> Inl (none_has_no_attribute ''id'')
      | Some r \<Rightarrow>
          if getattr user_in_db ''role_id'' = getattr r ''id'' then Inr True else Inr False)))"

text \<open>
  The status a raised exception leaves the server with (main.py, lines 89-92): an
  \<^verbatim>\<open>HTTPException\<close> answers with its own status, any other exception with 500.
\<close>

fun response_status :: "exn \<Rightarrow> nat" where
  "response_status (HTTPException s detail) = s"
| "response_status e = 500"

section \<open>Deleting a role (routes/roles\_router.py)\<close>

text \<open>
  A call of \<^verbatim>\<open>delete_record\<close> binds its four parameters before the body runs; none of
  them has a default, so a call that leaves \<^verbatim>\<open>current_user_id\<close> out raises
  \<^verbatim>\<open>TypeError\<close>.
\<close>

definition call_delete_record ::
  "engine \<Rightarrow> db \<Rightarrow> model \<Rightarrow> int \<Rightarrow> int option \<Rightarrow> db \<times> (exn + pydict)" where
  "call_delete_record E d m rid current_user_id =
     (case current_user_id of
        None \<Rightarrow>
          (d, Inl (TypeError (''delete_record() missing 1 required positional argument: '' @
                              repr_str ''current_user_id'')))
      | Some u \<Rightarrow> delete_record E d m rid u)"

definition delete_role_body :: "engine \<Rightarrow> db \<Rightarrow> int \<Rightarrow> db \<times> (exn + unit)" where
  "delete_role_body E d role_id =
     (case one_or_none (filter (\<lambda>r. getattr r ''id'' = PInt role_id)
                          (tables d (tablename RolesDbModel))) of
        Inl e \<Rightarrow> (d, Inl e)
      | Inr None \<Rightarrow> (d, Inl (HTTPException 404 ''Role not found''))
      | Inr (Some existing_role) \<Rightarrow>
          (case call_delete_record E d RolesDbModel role_id None of
             (d', Inl e) \<Rightarrow> (d', Inl e)
           | (d', Inr msg) \<Rightarrow> (d', Inr ())))"

text \<open>
  The route declares \<^verbatim>\<open>dependencies=[Depends(is_super_admin)]\<close>: the framework resolves
  the token to the current user, runs the dependency, drops the value it returns, and
  runs the endpoint unless the dependency raised.
\<close>

definition delete_role :: "engine \<Rightarrow> int \<Rightarrow> db \<Rightarrow> credential \<Rightarrow> int \<Rightarrow> db \<times> (exn + unit)" where
  "delete_role E utcnow d token role_id =
     (case get_current_user_from_token utcnow d token of
        Inl e \<Rightarrow> (d, Inl e)
      | Inr current_user \<Rightarrow>
          (case is_super_admin d current_user of
             Inl e \<Rightarrow> (d, Inl e)
           | Inr verdict \<Rightarrow> delete_role_body E d role_id))"

section \<open>A small database\<close>

text \<open>
  The state the closed theorems are evaluated on: the three well-known roles, one user of
  each role, and one amenity. The engine \<open>lenient\<close> enforces no constraint; the engine
  \<open>strict\<close> enforces those of the schema.
\<close>

definition t0 :: datetime where
  "t0 = \<lparr>year = 2024, month = 1, day = 5, hour = 9, minute = 30, second = 0, microsecond = 0\<rparr>"

definition t1 :: datetime where
  "t1 = \<lparr>year = 2024, month = 3, day = 17, hour = 18, minute = 4, second = 59,
          microsecond = 120\<rparr>"

definition role_row :: "int \<Rightarrow> string \<Rightarrow> row" where
  "role_row i n =
     [(''id'', PInt i), (''name'', PStr n), (''description'', PNone),
      (''created_at'', PDatetime t0), (''updated_at'', PDatetime t0)]"

definition user_row :: "int \<Rightarrow> string \<Rightarrow> int \<Rightarrow> row" where
  "user_row i e r =
     [(''id'', PInt i), (''email_id'', PStr e), (''password'', PStr ''$2b$12$hash''),
      (''verification_code'', PNone), (''confirmed'', PBool False), (''role_id'', PInt r),
      (''created_at'', PDatetime t0), (''updated_at'', PDatetime t0)]"

definition pool :: row where
  "pool =
     [(''id'', PInt 1), (''name'', PStr ''Pool''), (''description'', PStr ''Outdoor''),
      (''created_by_user'', PInt 7), (''created_at'', PDatetime t0),
      (''updated_at'', PDatetime t0)]"

definition db0 :: db where
  "db0 =
     \<lparr>tables =
        (\<lambda>t. if t = ''roles'' then [role_row 1 ''admin'', role_row 2 ''superAdmin'',
                                     role_row 3 ''endUser'']
             else if t = ''users'' then [user_row 7 ''alice@example.org'' 1,
                                         user_row 8 ''bob@example.org'' 3,
                                         user_row 9 ''root@example.org'' 2]
             else if t = ''amenities'' then [pool]
             else []),
      audit_logs = []\<rparr>"

definition lenient :: engine where
  "lenient = \<lparr>constraint_violation = (\<lambda>d. None), func_now = t1\<rparr>"

text \<open>
  An engine that enforces the constraints database\_models.py declares for the tables of
  this database: the primary keys, \<^verbatim>\<open>nullable=False\<close>, \<^verbatim>\<open>unique=True\<close> and the foreign
  keys of \<^verbatim>\<open>users.role_id\<close>, \<^verbatim>\<open>amenities.created_by_user\<close> and
  \<^verbatim>\<open>audit_logs.changed_by\<close>.
\<close>

definition not_null_column :: "string \<Rightarrow> row list \<Rightarrow> bool" where
  "not_null_column c rows = list_all (\<lambda>r. getattr r c \<noteq> PNone) rows"

definition unique_column :: "string \<Rightarrow> row list \<Rightarrow> bool" where
  "unique_column c rows =
     distinct (filter (\<lambda>v. v \<noteq> PNone) (map (\<lambda>r. getattr r c) rows))"

definition foreign_key :: "string \<Rightarrow> row list \<Rightarrow> row list \<Rightarrow> bool" where
  "foreign_key c rows parents =
     list_all (\<lambda>r. getattr r c = PNone \<or> list_ex (\<lambda>p. getattr p ''id'' = getattr r c) parents)
       rows"

definition strict :: engine where
  "strict =
     \<lparr>constraint_violation =
        (\<lambda>d. if not_null_column ''id'' (tables d ''roles'') \<and>
                not_null_column ''id'' (tables d ''users'') \<and>
                not_null_column ''role_id'' (tables d ''users'') \<and>
                not_null_column ''id'' (tables d ''amenities'') \<and>
                not_null_column ''created_by_user'' (tables d ''amenities'') \<and>
                list_all (\<lambda>e. record_id e \<noteq> PNone) (audit_logs d)
             then if unique_column ''id'' (tables d ''roles'') \<and>
                     unique_column ''name'' (tables d ''roles'') \<and>
                     unique_column ''id'' (tables d ''users'') \<and>
                     unique_column ''email_id'' (tables d ''users'') \<and>
                     unique_column ''id'' (tables d ''amenities'') \<and>
                     unique_column ''name'' (tables d ''amenities'') \<and>
                     distinct (map ae_id (audit_logs d))
                  then if foreign_key ''role_id'' (tables d ''users'') (tables d ''roles'') \<and>
                          foreign_key ''created_by_user'' (tables d ''amenities'')
                            (tables d ''users'') \<and>
                          list_all (\<lambda>e. list_ex (\<lambda>u. getattr u ''id'' = PInt (changed_by e))
                                            (tables d ''users'')) (audit_logs d)
                       then None
                       else Some ''FOREIGN KEY constraint failed''
                  else Some ''UNIQUE constraint failed''
             else Some ''NOT NULL constraint failed''),
      func_now = t1\<rparr>"

text \<open>
  A comparator for the evaluations: integers of 64 bits, as SQLite stores them (its driver
  refuses to bind a larger one, and the error message is the driver's), and for every
  other bound value the test that the stored value is the same, which is what an engine
  does with a value of the column's type (and with \<^verbatim>\<open>None\<close>, \<^verbatim>\<open>IS NULL\<close>). The
  conversions that engines apply to a value of another type are not modelled; the
  evaluations bind values of the column's type.
\<close>

definition int64_equal :: comparator where
  "int64_equal t c v =
     (case v of
        PInt i \<Rightarrow>
          if - (2 ^ 63) \<le> i \<and> i < 2 ^ 63 then Inr (\<lambda>x. x = v)
          else Inl ''Python int too large to convert to SQLite INTEGER''
      | _ \<Rightarrow> Inr (\<lambda>x. x = v))"

text \<open>The same database before the role \<^verbatim>\<open>endUser\<close> was seeded.\<close>

definition db_no_end_user :: db where
  "db_no_end_user =
     set_table db0 ''roles'' [role_row 1 ''admin'', role_row 2 ''superAdmin'']"

text \<open>The same database before any role was seeded.\<close>

definition db_unseeded :: db where
  "db_unseeded = set_table db0 ''roles'' []"

text \<open>Bearer tokens of the three users, valid until second 2000.\<close>

definition token_of :: "string \<Rightarrow> credential" where
  "token_of e =
     \<lparr>well_formed = True, signature_valid = True, claim_sub = Some e, claim_exp = Some 2000\<rparr>"

definition alice :: UserUpdate where
  "alice = \<lparr>email = ''alice@example.org'', user_id = 7\<rparr>"

definition bob :: UserUpdate where
  "bob = \<lparr>email = ''bob@example.org'', user_id = 8\<rparr>"

definition root :: UserUpdate where
  "root = \<lparr>email = ''root@example.org'', user_id = 9\<rparr>"

section \<open>The vocabulary of the properties\<close>

text \<open>
  The loggable form of a value in the words of the specification: a temporal value is its
  ISO-8601 string, a JSON value is itself, anything else has none. \<open>logged_as\<close> relates a
  dictionary to the JSON object that holds the loggable form of each of its members, in
  order and under the same keys.
\<close>

fun loggable :: "pyval \<Rightarrow> json_value option" where
  "loggable PNone = Some JNull"
| "loggable (PBool b) = Some (JBool b)"
| "loggable (PInt i) = Some (JNum i)"
| "loggable (PStr s) = Some (JStr s)"
| "loggable (PDatetime t) = Some (JStr (isoformat t))"
| "loggable (PObj n r i) = None"

definition logged_as :: "pydict \<Rightarrow> json_object \<Rightarrow> bool" where
  "logged_as values obj =
     list_all2 (\<lambda>kv kj. fst kj = fst kv \<and> loggable (snd kv) = Some (snd kj)) values obj"

fun is_json :: "pyval \<Rightarrow> bool" where
  "is_json PNone = True"
| "is_json (PBool b) = True"
| "is_json (PInt i) = True"
| "is_json (PStr s) = True"
| "is_json (PDatetime t) = False"
| "is_json (PObj n r i) = False"

text \<open>The datetimes Python can construct.\<close>

definition leap_year :: "nat \<Rightarrow> bool" where
  "leap_year y = (y mod 4 = 0 \<and> (y mod 400 = 0 \<or> y mod 100 \<noteq> 0))"

definition days_in_month :: "nat \<Rightarrow> nat \<Rightarrow> nat" where
  "days_in_month y m =
     (if m = 2 then (if leap_year y then 29 else 28)
      else if m = 4 \<or> m = 6 \<or> m = 9 \<or> m = 11 then 30
      else 31)"

definition valid_datetime :: "datetime \<Rightarrow> bool" where
  "valid_datetime t =
     (1 \<le> year t \<and> year t \<le> 9999 \<and> 1 \<le> month t \<and> month t \<le> 12 \<and>
      1 \<le> day t \<and> day t \<le> days_in_month (year t) (month t) \<and>
      hour t < 24 \<and> minute t < 60 \<and> second t < 60 \<and> microsecond t < 1000000)"

text \<open>
  Modelled from the spec: the ISO-8601 reader of property P7 (``canonicalizing a temporal
  value and re-parsing it as ISO-8601 yields an equal instant''); the repository has no
  parser of its own. It reads \<^verbatim>\<open>YYYY-MM-DDTHH:MM:SS\<close> with an optional fraction of six
  digits and accepts the result when it is a date and time of the calendar.
\<close>

definition digit_val :: "char \<Rightarrow> nat option" where
  "digit_val c =
     map_of [(CHR ''0'', 0), (CHR ''1'', 1), (CHR ''2'', 2), (CHR ''3'', 3), (CHR ''4'', 4),
             (CHR ''5'', 5), (CHR ''6'', 6), (CHR ''7'', 7), (CHR ''8'', 8), (CHR ''9'', 9)] c"

fun number :: "nat \<Rightarrow> string \<Rightarrow> nat option" where
  "number acc [] = Some acc"
| "number acc (c # cs) =
     (case digit_val c of
        None \<Rightarrow> None
      | Some v \<Rightarrow> number (10 * acc + v) cs)"

definition parse_fraction :: "string \<Rightarrow> nat option" where
  "parse_fraction s =
     (if s = [] then Some 0
      else if length s = 7 \<and> hd s = CHR ''.'' then number 0 (tl s)
      else None)"

definition parse_iso8601 :: "string \<Rightarrow> datetime option" where
  "parse_iso8601 s =
     (if length s < 19 then None
      else if [s ! 4, s ! 7, s ! 10, s ! 13, s ! 16] \<noteq> ''--T::'' then None
      else
        (case (number 0 (take 4 s), number 0 (take 2 (drop 5 s)),
               number 0 (take 2 (drop 8 s)), number 0 (take 2 (drop 11 s)),
               number 0 (take 2 (drop 14 s)), number 0 (take 2 (drop 17 s)),
               parse_fraction (drop 19 s)) of
           (Some y, Some mo, Some dd, Some h, Some mi, Some sec, Some us) \<Rightarrow>
             (let t = \<lparr>year = y, month = mo, day = dd, hour = h, minute = mi, second = sec,
                       microsecond = us\<rparr>
              in if valid_datetime t then Some t else None)
         | _ \<Rightarrow> None))"

text \<open>
  An equality filter that the engine evaluates, and a row that passes it as the engine
  evaluates it.
\<close>

definition evaluates :: "comparator \<Rightarrow> string \<Rightarrow> string \<times> pyval \<Rightarrow> bool" where
  "evaluates sql_equal t kv =
     (case sql_equal t (fst kv) (snd kv) of Inl msg \<Rightarrow> False | Inr test \<Rightarrow> True)"

definition passes :: "comparator \<Rightarrow> string \<Rightarrow> row \<Rightarrow> string \<times> pyval \<Rightarrow> bool" where
  "passes sql_equal t r kv =
     (case sql_equal t (fst kv) (snd kv) of
        Inl msg \<Rightarrow> False
      | Inr test \<Rightarrow> test (getattr r (fst kv)))"

text \<open>The status a failed call leaves the server with.\<close>

definition failure_status :: "exn + 'a \<Rightarrow> nat option" where
  "failure_status res = (case res of Inl e \<Rightarrow> Some (response_status e) | Inr x \<Rightarrow> None)"

section \<open>Auxiliary facts\<close>

lemma str_nat_404: "str_nat 404 = ''404''"
  by (simp add: str_nat.simps digit_def)

lemma has_id_column:
  "''id'' \<in> set (column_names m) \<Longrightarrow> attr_eq m ''id'' v = Inr (\<lambda>r. getattr r ''id'' = v)"
  by (simp add: attr_eq_def class_getattr_def)

lemma query_first_no_match: "list_all (\<lambda>r. \<not> P r) rs \<Longrightarrow> query_first (filter P rs) = None"
  by (induction rs) (auto simp: query_first_def)

lemma amenities_has_id: "''id'' \<in> set (column_names AmenitiesDbModel)"
  by (simp add: column_names_def AmenitiesDbModel_def timestamps_def)

subsection \<open>The adapter computes the loggable form\<close>

lemma json_encode_loggable:
  "loggable v = Some j \<Longrightarrow> json_encode (Some json_serial) v = Inr j"
  by (cases v) (auto simp: json_serial_def)

lemma json_dumps_logged_as:
  "logged_as vs obj \<Longrightarrow> json_dumps (Some json_serial) vs = Inr obj"
  unfolding logged_as_def
proof (induction vs obj rule: list_all2_induct)
  case Nil
  then show ?case by simp
next
  case (Cons kv vs kj obj)
  obtain k v where kv: "kv = (k, v)" by (cases kv)
  obtain k' j where kj: "kj = (k', j)" by (cases kj)
  from Cons show ?case
    by (simp add: kv kj json_encode_loggable)
qed

lemma canonicalize_logged_as:
  "logged_as vs obj \<Longrightarrow> canonicalize vs = Inr (json_loads obj)"
  by (simp add: canonicalize_def json_dumps_logged_as)

lemma logged_as_keys: "logged_as vs obj \<Longrightarrow> map fst obj = map fst vs"
  unfolding logged_as_def
  by (induction vs obj rule: list_all2_induct) simp_all

lemma json_encode_decode: "json_encode None (json_decode j) = Inr j"
  by (cases j) simp_all

lemma json_dumps_loads: "json_dumps None (json_loads obj) = Inr obj"
  by (induction obj) (auto simp: json_loads_def json_encode_decode)

lemma setattr_all_columns:
  "list_all (\<lambda>kv. fst kv \<in> set (column_names m)) data \<Longrightarrow> setattr_all m data = None"
  by (induction data) (auto simp: class_getattr_def)

section \<open>The record store: atomicity, audit payload, missing records\<close>

text \<open>
  Claim C1 (atomicity): a successful create, update or delete appends exactly one audit
  entry for the affected record, and a failed attempt leaves no new audit entry and the
  record table unchanged.

  The store commits the row first and the audit entry in a second transaction
  (\<^verbatim>\<open>db.commit()\<close> in the operation, then \<^verbatim>\<open>db.commit()\<close> in \<^verbatim>\<open>add_audit_log\<close>), so
  the \<^verbatim>\<open>db.rollback()\<close> of the handler cannot undo the row once the audit step fails.
  Evaluated on two failing attempts, under the engine that enforces the constraints of the
  schema. Creating an amenity with every required field, whose fields also carry a
  datetime: the row passes the constraints and is committed, the plain encoder of the
  audit step raises \<^verbatim>\<open>TypeError\<close>, and the call answers 500 with the amenity stored and
  no audit entry. Deleting amenity 1 on behalf of a user id that no user has: the deletion
  is committed, the audit entry violates the foreign key of \<^verbatim>\<open>changed_by\<close>, and the call
  answers 500 with the amenity gone and no audit entry.
\<close>

theorem failure_after_row_commit_keeps_row:
  "snd (create_record strict db0 AmenitiesDbModel
          [(''name'', PStr ''Spa''), (''created_by_user'', PInt 7),
           (''created_at'', PDatetime t0)] 7) =
     Inl (HTTPException 500
            ''Error creating record: Object of type datetime is not JSON serializable'')
   \<and> map (\<lambda>r. getattr r ''name'')
        (tables (fst (create_record strict db0 AmenitiesDbModel
                        [(''name'', PStr ''Spa''), (''created_by_user'', PInt 7),
                         (''created_at'', PDatetime t0)] 7))
           ''amenities'') = [PStr ''Pool'', PStr ''Spa'']
   \<and> audit_logs (fst (create_record strict db0 AmenitiesDbModel
                         [(''name'', PStr ''Spa''), (''created_by_user'', PInt 7),
                          (''created_at'', PDatetime t0)] 7)) = []
   \<and> snd (delete_record strict db0 AmenitiesDbModel 1 99) =
     Inl (HTTPException 500 ''Error deleting record: FOREIGN KEY constraint failed'')
   \<and> tables (fst (delete_record strict db0 AmenitiesDbModel 1 99)) ''amenities'' = []
   \<and> audit_logs (fst (delete_record strict db0 AmenitiesDbModel 1 99)) = []"
  by (simp add: create_record_def create_record_body_def delete_record_def
        delete_record_body_def instance_id_def insert_row_def column_default_value_def
        next_id_def add_audit_log_def commit_def set_table_def
        canonicalize_def json_loads_def json_serial_def attr_eq_def class_getattr_def
        column_names_def getattr_def query_first_def isoformat_def zfill2_def zfill4_def
        digit_def next_audit_id_def snapshot_def
        not_null_column_def unique_column_def foreign_key_def
        db0_def strict_def AmenitiesDbModel_def timestamps_def pool_def
        user_row_def role_row_def t0_def)

text \<open>
  Claim C2 (old/new asymmetry): for an existing record and a partial field mapping,
  \<^verbatim>\<open>update\<close> emits an audit entry whose \<open>old_values\<close> is the full snapshot of all columns
  before the update and whose \<open>new_values\<close> is exactly the supplied fields.

  For a record shape other than the audit log itself, a record found under the id,
  fields that name columns, values that have a loggable form, and an engine that accepts
  the updated table and then the audit entry, \<^verbatim>\<open>update_record\<close> succeeds; the state it leaves has one more audit entry, whose
  \<open>old_values\<close> holds the loggable form of every column of the record as it was, and
  whose \<open>new_values\<close> holds the loggable form of the supplied fields and nothing else.
\<close>

theorem update_record_audit_entry:
  assumes shape: "tablename m \<noteq> ''audit_logs''"
    and id_col: "''id'' \<in> set (column_names m)"
    and found: "query_first (filter (\<lambda>r. getattr r ''id'' = PInt rid) (tables d (tablename m)))
                  = Some record"
    and fields: "list_all (\<lambda>kv. fst kv \<in> set (column_names m)) data"
    and old: "logged_as (snapshot m record) old_json"
    and new: "logged_as data new_json"
    and d1: "d1 = set_table d (tablename m)
                    (replace_first (\<lambda>r. getattr r ''id'' = PInt rid)
                       (update_row E m record data) (tables d (tablename m)))"
    and d2: "d2 = d1\<lparr>audit_logs := audit_logs d @
                     [\<lparr>ae_id = next_audit_id (audit_logs d), table_name = tablename m,
                       record_id = PInt rid, changed_by = uid, old_values = old_json,
                       new_values = new_json, timestamp = func_now E\<rparr>]\<rparr>"
    and ok1: "constraint_violation E d1 = None"
    and ok2: "constraint_violation E d2 = None"
  shows "update_record E d m rid data uid = (d2, Inr (update_row E m record data))
       \<and> map fst old_json = column_names m \<and> map fst new_json = map fst data"
proof -
  have a1: "audit_logs d1 = audit_logs d"
    by (simp add: d1 set_table_def)
  have audit: "add_audit_log E d1 (tablename m) (PInt rid) uid (json_loads old_json)
                 (json_loads new_json) = (d2, Inr ())"
    using ok2 by (simp add: add_audit_log_def json_dumps_loads commit_def a1 d2)
  have body: "update_record_body E d m rid data uid = (d2, Inr (update_row E m record data))"
    using found ok1 audit
    by (simp add: update_record_body_def has_id_column [OF id_col]
          canonicalize_logged_as [OF old] canonicalize_logged_as [OF new]
          setattr_all_columns [OF fields] commit_def d1 [symmetric])
  have keys: "map fst old_json = column_names m"
    using logged_as_keys [OF old] by (simp add: snapshot_def column_names_def comp_def)
  show ?thesis
    using body keys logged_as_keys [OF new] by (simp add: update_record_def)
qed

theorem update_record_audit_entry_witness:
  "audit_logs (fst (update_record lenient db0 AmenitiesDbModel 1
                      [(''description'', PStr ''Heated'')] 7)) =
     [\<lparr>ae_id = 1, table_name = ''amenities'', record_id = PInt 1, changed_by = 7,
       old_values =
         [(''id'', JNum 1), (''name'', JStr ''Pool''), (''description'', JStr ''Outdoor''),
          (''created_by_user'', JNum 7), (''created_at'', JStr ''2024-01-05T09:30:00''),
          (''updated_at'', JStr ''2024-01-05T09:30:00'')],
       new_values = [(''description'', JStr ''Heated'')],
       timestamp = t1\<rparr>]"
proof -
  let ?old = "[(''id'', JNum 1), (''name'', JStr ''Pool''), (''description'', JStr ''Outdoor''),
          (''created_by_user'', JNum 7), (''created_at'', JStr ''2024-01-05T09:30:00''),
          (''updated_at'', JStr ''2024-01-05T09:30:00'')]"
  let ?new = "[(''description'', JStr ''Heated'')]"
  let ?data = "[(''description'', PStr ''Heated'')]"
  have found: "query_first (filter (\<lambda>r. getattr r ''id'' = PInt 1)
                 (tables db0 (tablename AmenitiesDbModel))) = Some pool"
    by (simp add: query_first_def db0_def AmenitiesDbModel_def getattr_def pool_def)
  have fields: "list_all (\<lambda>kv. fst kv \<in> set (column_names AmenitiesDbModel)) ?data"
    by (simp add: column_names_def AmenitiesDbModel_def timestamps_def)
  have old: "logged_as (snapshot AmenitiesDbModel pool) ?old"
    by (simp add: logged_as_def snapshot_def AmenitiesDbModel_def timestamps_def pool_def
          getattr_def t0_def isoformat_def zfill2_def zfill4_def digit_def)
  have new: "logged_as ?data ?new"
    by (simp add: logged_as_def)
  have ok: "constraint_violation lenient s = None" for s
    by (simp add: lenient_def)
  have shape: "tablename AmenitiesDbModel \<noteq> ''audit_logs''"
    by (simp add: AmenitiesDbModel_def)
  from update_record_audit_entry
         [OF shape amenities_has_id found fields old new refl refl ok ok, of 7]
  show ?thesis
    by (simp add: db0_def lenient_def next_audit_id_def AmenitiesDbModel_def set_table_def)
qed

text \<open>
  Claim C3 (missing record): for an id that names no record of the table, \<^verbatim>\<open>update\<close>
  and \<^verbatim>\<open>delete\<close> fail with NotFound (status 404) and not with another kind of error.

  Both operations raise status 404 inside their \<^verbatim>\<open>try\<close>; the handler
  \<^verbatim>\<open>except Exception\<close> catches it, since \<^verbatim>\<open>HTTPException\<close> is an \<^verbatim>\<open>Exception\<close>, and
  raises status 500 in its place. (\<^verbatim>\<open>fetch_record\<close> re-raises an \<^verbatim>\<open>HTTPException\<close>
  before its general handler.) The caller therefore receives status 500, with the text of
  the 404 inside the detail, and the database is left as it was.
\<close>

theorem update_delete_missing_id_answer_500:
  assumes "''id'' \<in> set (column_names m)"
    and "list_all (\<lambda>r. getattr r ''id'' \<noteq> PInt rid) (tables d (tablename m))"
  shows "update_record E d m rid data uid =
           (d, Inl (HTTPException 500
                      (''Error updating record: '' @
                       str_exn (HTTPException 404 (classname m @ '' not found'')))))
       \<and> delete_record E d m rid uid =
           (d, Inl (HTTPException 500
                      (''Error deleting record: '' @
                       str_exn (HTTPException 404 (classname m @ '' not found'')))))"
  using assms
  by (simp add: update_record_def update_record_body_def delete_record_def
        delete_record_body_def has_id_column query_first_no_match)

theorem update_delete_missing_id_answer_500_witness:
  "snd (update_record lenient db0 AmenitiesDbModel 42 [(''name'', PStr ''Spa'')] 7) =
     Inl (HTTPException 500 ''Error updating record: 404: AmenitiesDbModel not found'')
   \<and> snd (delete_record lenient db0 AmenitiesDbModel 42 7) =
     Inl (HTTPException 500 ''Error deleting record: 404: AmenitiesDbModel not found'')"
proof -
  have absent: "list_all (\<lambda>r. getattr r ''id'' \<noteq> PInt 42)
                  (tables db0 (tablename AmenitiesDbModel))"
    by (simp add: db0_def AmenitiesDbModel_def getattr_def pool_def)
  from update_delete_missing_id_answer_500 [OF amenities_has_id absent]
  show ?thesis
    by (simp add: AmenitiesDbModel_def str_nat_404)
qed

text \<open>
  Claim C5 (adapter on both sides): on every create, update and delete the snapshot and
  the fields payload pass through the serialization adapter before they are embedded in
  the audit entry, so that a temporal value is logged as its ISO-8601 string.

  \<^verbatim>\<open>update_record\<close> passes the fields through \<^verbatim>\<open>json_serial\<close>; \<^verbatim>\<open>create_record\<close>
  hands them to \<^verbatim>\<open>add_audit_log\<close> as they are, where the plain encoder meets the
  datetime. Evaluated on one payload with a datetime: creating a role with it answers 500
  and logs nothing, updating role 3 with it logs the ISO-8601 string.
\<close>

theorem create_record_payload_not_canonicalized:
  "snd (create_record lenient db0 RolesDbModel
          [(''name'', PStr ''auditor''), (''updated_at'', PDatetime t0)] 9) =
     Inl (HTTPException 500
            ''Error creating record: Object of type datetime is not JSON serializable'')
   \<and> audit_logs (fst (create_record lenient db0 RolesDbModel
                         [(''name'', PStr ''auditor''), (''updated_at'', PDatetime t0)] 9)) = []
   \<and> map new_values
        (audit_logs (fst (update_record lenient db0 RolesDbModel 3
                            [(''name'', PStr ''auditor''), (''updated_at'', PDatetime t0)] 9))) =
     [[(''name'', JStr ''auditor''), (''updated_at'', JStr ''2024-01-05T09:30:00'')]]"
  by (simp add: create_record_def create_record_body_def update_record_def
        update_record_body_def instance_id_def insert_row_def update_row_def
        column_default_value_def next_id_def add_audit_log_def commit_def set_table_def
        canonicalize_def json_loads_def json_serial_def attr_eq_def class_getattr_def
        column_names_def getattr_def query_first_def isoformat_def zfill2_def zfill4_def
        digit_def next_audit_id_def snapshot_def
        db0_def lenient_def RolesDbModel_def timestamps_def role_row_def t0_def)

section \<open>The lookup engine: absence, ambiguity, invalid filters\<close>

lemma add_filters_columns:
  "list_all (\<lambda>kv. fst kv \<in> set (column_names m)) fp \<Longrightarrow>
   add_filters m fp q = Inr (q @ map (\<lambda>kv. ColumnEq (fst kv) (snd kv)) fp)"
proof (induction fp arbitrary: q)
  case Nil
  then show ?case by simp
next
  case (Cons kv fp)
  obtain k v where kv: "kv = (k, v)" by (cases kv)
  from Cons.prems have k: "k \<in> set (column_names m)"
    and rest: "list_all (\<lambda>kv. fst kv \<in> set (column_names m)) fp"
    by (simp_all add: kv)
  from k have "hasattr_model m k" "filter_criterion m k v = Inr (ColumnEq k v)"
    by (simp_all add: hasattr_model_def filter_criterion_def class_getattr_def)
  then show ?case
    using Cons.IH [OF rest] by (simp add: kv)
qed

lemma add_filters_invalid:
  "list_all (\<lambda>kv. class_getattr m (fst kv) \<noteq> Some Relationship) fp \<Longrightarrow>
   list_ex (\<lambda>kv. \<not> hasattr_model m (fst kv)) fp \<Longrightarrow>
   \<exists>k. list_ex (\<lambda>kv. fst kv = k) fp \<and> \<not> hasattr_model m k \<and>
       add_filters m fp q = Inl (HTTPException 400 (''Invalid filter parameter: '' @ k))"
proof (induction fp arbitrary: q)
  case Nil
  then show ?case by simp
next
  case (Cons kv fp)
  obtain k v where kv: "kv = (k, v)" by (cases kv)
  show ?case
  proof (cases "hasattr_model m k")
    case False
    then show ?thesis by (auto simp: kv)
  next
    case True
    from Cons.prems have "class_getattr m k \<noteq> Some Relationship"
      by (simp add: kv)
    with True obtain c where c: "filter_criterion m k v = Inr c"
      by (cases "class_getattr m k"; cases "the (class_getattr m k)")
         (auto simp: hasattr_model_def filter_criterion_def)
    from Cons.prems True
    have "list_all (\<lambda>kv. class_getattr m (fst kv) \<noteq> Some Relationship) fp"
      "list_ex (\<lambda>kv. \<not> hasattr_model m (fst kv)) fp"
      by (simp_all add: kv)
    from Cons.IH [OF this, of "q @ [c]"] True c show ?thesis
      by (auto simp: kv)
  qed
qed

lemma run_criteria_evaluated:
  "list_all (evaluates sql_equal t) fp \<Longrightarrow>
   run_criteria sql_equal d t (map (\<lambda>kv. ColumnEq (fst kv) (snd kv)) fp) =
     Inr (map (\<lambda>kv r. passes sql_equal t r kv) fp)"
proof (induction fp)
  case Nil
  then show ?case by simp
next
  case (Cons kv fp)
  from Cons.prems obtain test where test: "sql_equal t (fst kv) (snd kv) = Inr test"
    by (cases "sql_equal t (fst kv) (snd kv)") (simp_all add: evaluates_def)
  then have "run_criterion sql_equal d t (ColumnEq (fst kv) (snd kv)) =
               Inr (\<lambda>r. passes sql_equal t r kv)"
    by (simp add: run_criterion_def passes_def)
  with Cons show ?case by simp
qed

lemma run_criteria_refused:
  "list_ex (\<lambda>kv. \<not> evaluates sql_equal t kv) fp \<Longrightarrow>
   \<exists>msg. run_criteria sql_equal d t (map (\<lambda>kv. ColumnEq (fst kv) (snd kv)) fp) =
           Inl (ORMError msg)"
proof (induction fp)
  case Nil
  then show ?case by simp
next
  case (Cons kv fp)
  show ?case
  proof (cases "sql_equal t (fst kv) (snd kv)")
    case (Inl msg)
    then show ?thesis by (simp add: run_criterion_def)
  next
    case (Inr test)
    with Cons.prems have "list_ex (\<lambda>kv. \<not> evaluates sql_equal t kv) fp"
      by (simp add: evaluates_def)
    from Cons.IH [OF this] Inr show ?thesis
      by (auto simp: run_criterion_def)
  qed
qed

text \<open>
  Claim C4 (ambiguity against absence): for a filter mapping whose keys all name columns,
  \<^verbatim>\<open>findOne\<close> fails with NotFound (404) when no row matches every equality, with
  AmbiguousMatch (status 300) when two or more rows match, and returns the row when
  exactly one matches; a filter key that names no column fails with InvalidFilter (400).

  The claim fails in two ways. The guard on the keys is \<^verbatim>\<open>hasattr(model, attr)\<close>, which
  every attribute of the model class passes, not only its columns: the key \<^verbatim>\<open>to_dict\<close>,
  a method of \<^verbatim>\<open>AmenitiesDbModel\<close>, is no column, passes the guard, compares unequal to
  the value, and the lookup answers 404. And the equality tests are evaluated by the
  engine, inside the \<^verbatim>\<open>try\<close> block: a value that the engine refuses (an integer of more
  than 64 bits) makes \<^verbatim>\<open>query.all()\<close> raise, and the lookup answers 500 though no row has
  that id.

  As amended, for every engine: when all keys name columns and the engine evaluates every
  equality test, the lookup answers 404, the row, or 300 as no row, one row, or several
  rows pass every test; a filter whose keys are columns, plain attributes or names of no
  attribute, with at least one name of no attribute of the class, fails with status 400
  naming such a key; and when all keys name columns and the engine refuses one of the
  tests, the lookup fails with status 500.
\<close>

theorem fetch_record_outcomes:
  "(list_all (\<lambda>kv. fst kv \<in> set (column_names m)) fp \<and>
    list_all (evaluates sql_equal (tablename m)) fp \<longrightarrow>
      fetch_record sql_equal d m fp =
        (case filter (\<lambda>r. list_all (passes sql_equal (tablename m) r) fp)
                (tables d (tablename m)) of
           [] \<Rightarrow> Inl (HTTPException 404 ''Record not found'')
         | [r] \<Rightarrow> Inr r
         | _ \<Rightarrow> Inl (HTTPException 300 ''Multiple records found'')))
   \<and> (list_all (\<lambda>kv. class_getattr m (fst kv) \<noteq> Some Relationship) fp \<and>
      list_ex (\<lambda>kv. \<not> hasattr_model m (fst kv)) fp \<longrightarrow>
      (\<exists>k. list_ex (\<lambda>kv. fst kv = k) fp \<and> \<not> hasattr_model m k \<and>
           fetch_record sql_equal d m fp =
             Inl (HTTPException 400 (''Invalid filter parameter: '' @ k))))
   \<and> (list_all (\<lambda>kv. fst kv \<in> set (column_names m)) fp \<and>
      list_ex (\<lambda>kv. \<not> evaluates sql_equal (tablename m) kv) fp \<longrightarrow>
      (\<exists>detail. fetch_record sql_equal d m fp = Inl (HTTPException 500 detail)))"
proof (intro conjI impI)
  assume "list_all (\<lambda>kv. fst kv \<in> set (column_names m)) fp \<and>
          list_all (evaluates sql_equal (tablename m)) fp"
  then have cols: "list_all (\<lambda>kv. fst kv \<in> set (column_names m)) fp"
    and ev: "list_all (evaluates sql_equal (tablename m)) fp"
    by simp_all
  have "query_all sql_equal d m (map (\<lambda>kv. ColumnEq (fst kv) (snd kv)) fp) =
        Inr (filter (\<lambda>r. list_all (passes sql_equal (tablename m) r) fp)
               (tables d (tablename m)))"
    by (simp add: query_all_def run_criteria_evaluated [OF ev] list.pred_map comp_def)
  then show "fetch_record sql_equal d m fp =
        (case filter (\<lambda>r. list_all (passes sql_equal (tablename m) r) fp)
                (tables d (tablename m)) of
           [] \<Rightarrow> Inl (HTTPException 404 ''Record not found'')
         | [r] \<Rightarrow> Inr r
         | _ \<Rightarrow> Inl (HTTPException 300 ''Multiple records found''))"
    by (simp add: fetch_record_def fetch_record_body_def add_filters_columns [OF cols]
          split: list.splits)
next
  assume "list_all (\<lambda>kv. class_getattr m (fst kv) \<noteq> Some Relationship) fp \<and>
      list_ex (\<lambda>kv. \<not> hasattr_model m (fst kv)) fp"
  then obtain k where "list_ex (\<lambda>kv. fst kv = k) fp" "\<not> hasattr_model m k"
    "add_filters m fp [] = Inl (HTTPException 400 (''Invalid filter parameter: '' @ k))"
    using add_filters_invalid [of m fp "[]"] by blast
  then show "\<exists>k. list_ex (\<lambda>kv. fst kv = k) fp \<and> \<not> hasattr_model m k \<and>
           fetch_record sql_equal d m fp =
             Inl (HTTPException 400 (''Invalid filter parameter: '' @ k))"
    by (auto simp: fetch_record_def fetch_record_body_def)
next
  assume "list_all (\<lambda>kv. fst kv \<in> set (column_names m)) fp \<and>
      list_ex (\<lambda>kv. \<not> evaluates sql_equal (tablename m) kv) fp"
  then have cols: "list_all (\<lambda>kv. fst kv \<in> set (column_names m)) fp"
    and refused: "list_ex (\<lambda>kv. \<not> evaluates sql_equal (tablename m) kv) fp"
    by simp_all
  from run_criteria_refused [OF refused, of d] obtain msg where
    "run_criteria sql_equal d (tablename m) (map (\<lambda>kv. ColumnEq (fst kv) (snd kv)) fp) =
       Inl (ORMError msg)"
    by blast
  then show "\<exists>detail. fetch_record sql_equal d m fp = Inl (HTTPException 500 detail)"
    by (simp add: fetch_record_def fetch_record_body_def query_all_def
          add_filters_columns [OF cols])
qed

theorem fetch_record_outcomes_witness:
  "fetch_record int64_equal db0 RolesDbModel [(''name'', PStr ''admin''), (''id'', PInt 1)] =
     Inr (role_row 1 ''admin'')
   \<and> fetch_record int64_equal db0 RolesDbModel
       [(''name'', PStr ''admin''), (''id'', PInt 2)] =
     Inl (HTTPException 404 ''Record not found'')
   \<and> fetch_record int64_equal db0 RolesDbModel [(''description'', PNone)] =
     Inl (HTTPException 300 ''Multiple records found'')
   \<and> fetch_record int64_equal db0 RolesDbModel
       [(''name'', PStr ''admin''), (''colour'', PInt 2)] =
     Inl (HTTPException 400 ''Invalid filter parameter: colour'')
   \<and> (\<exists>detail. fetch_record int64_equal db0 RolesDbModel [(''id'', PInt (2 ^ 70))] =
                 Inl (HTTPException 500 detail))"
proof -
  have names: "column_names RolesDbModel =
                 [''id'', ''name'', ''description'', ''created_at'', ''updated_at'']"
    by (simp add: column_names_def RolesDbModel_def timestamps_def)
  have roles: "tables db0 (tablename RolesDbModel) =
                 [role_row 1 ''admin'', role_row 2 ''superAdmin'', role_row 3 ''endUser'']"
    by (simp add: db0_def RolesDbModel_def)
  note outcome =
    fetch_record_outcomes [of RolesDbModel _ int64_equal db0, THEN conjunct1, rule_format]
  have 1: "fetch_record int64_equal db0 RolesDbModel
             [(''name'', PStr ''admin''), (''id'', PInt 1)] = Inr (role_row 1 ''admin'')"
    by (subst outcome)
       (simp_all add: names roles role_row_def getattr_def evaluates_def passes_def
          int64_equal_def)
  have 2: "fetch_record int64_equal db0 RolesDbModel
             [(''name'', PStr ''admin''), (''id'', PInt 2)] =
             Inl (HTTPException 404 ''Record not found'')"
    by (subst outcome)
       (simp_all add: names roles role_row_def getattr_def evaluates_def passes_def
          int64_equal_def)
  have 3: "fetch_record int64_equal db0 RolesDbModel [(''description'', PNone)] =
             Inl (HTTPException 300 ''Multiple records found'')"
    by (subst outcome)
       (simp_all add: names roles role_row_def getattr_def evaluates_def passes_def
          int64_equal_def)
  have attrs: "hasattr_model RolesDbModel ''name''" "\<not> hasattr_model RolesDbModel ''colour''"
    "class_getattr RolesDbModel ''name'' \<noteq> Some Relationship"
    "class_getattr RolesDbModel ''colour'' \<noteq> Some Relationship"
    by (simp_all add: hasattr_model_def class_getattr_def names)
       (simp_all add: RolesDbModel_def own_attrs_def inherited_attrs_def inherited_names_def)
  from fetch_record_outcomes
         [of RolesDbModel "[(''name'', PStr ''admin''), (''colour'', PInt 2)]" int64_equal db0,
          THEN conjunct2, THEN conjunct1] attrs
  obtain k where "list_ex (\<lambda>kv. fst kv = k) [(''name'', PStr ''admin''), (''colour'', PInt 2)]"
    "\<not> hasattr_model RolesDbModel k"
    "fetch_record int64_equal db0 RolesDbModel
       [(''name'', PStr ''admin''), (''colour'', PInt 2)] =
       Inl (HTTPException 400 (''Invalid filter parameter: '' @ k))"
    by auto
  with attrs have 4:
    "fetch_record int64_equal db0 RolesDbModel
       [(''name'', PStr ''admin''), (''colour'', PInt 2)] =
       Inl (HTTPException 400 ''Invalid filter parameter: colour'')"
    by auto
  have 5: "\<exists>detail. fetch_record int64_equal db0 RolesDbModel [(''id'', PInt (2 ^ 70))] =
                     Inl (HTTPException 500 detail)"
    using fetch_record_outcomes
            [of RolesDbModel "[(''id'', PInt (2 ^ 70))]" int64_equal db0,
             THEN conjunct2, THEN conjunct2]
    by (simp add: names evaluates_def int64_equal_def)
  from 1 2 3 4 5 show ?thesis by simp
qed

theorem fetch_record_method_key_not_invalid_filter:
  "''to_dict'' \<notin> set (column_names AmenitiesDbModel)
   \<and> fetch_record int64_equal db0 AmenitiesDbModel [(''to_dict'', PInt 1)] =
       Inl (HTTPException 404 ''Record not found'')
   \<and> tables db0 (tablename AmenitiesDbModel) = [pool]
   \<and> failure_status (fetch_record int64_equal db0 AmenitiesDbModel [(''id'', PInt (2 ^ 70))]) =
       Some 500"
  by (simp add: fetch_record_def fetch_record_body_def query_all_def run_criterion_def
        hasattr_model_def filter_criterion_def class_getattr_def column_names_def
        failure_status_def int64_equal_def getattr_def
        db0_def AmenitiesDbModel_def timestamps_def pool_def own_attrs_def)

section \<open>The serialization adapter: round trip and identity\<close>

lemma digit_val_nth: "k < 10 \<Longrightarrow> digit_val (''0123456789'' ! k) = Some k"
proof -
  assume "k < 10"
  then have "k = 0 \<or> k = 1 \<or> k = 2 \<or> k = 3 \<or> k = 4 \<or> k = 5 \<or> k = 6 \<or> k = 7 \<or> k = 8 \<or> k = 9"
    by arith
  then show ?thesis
    by (elim disjE) (simp_all add: digit_val_def)
qed

lemma digit_val_digit: "digit_val (digit n) = Some (n mod 10)"
  by (simp add: digit_def digit_val_nth)

lemma div_chain:
  "(n::nat) div 100 = n div 10 div 10"
  "n div 1000 = n div 10 div 10 div 10"
  "n div 10000 = n div 10 div 10 div 10 div 10"
  "n div 100000 = n div 10 div 10 div 10 div 10 div 10"
  by (simp_all add: div_mult2_eq)

lemma number_zfill2: "n < 100 \<Longrightarrow> number 0 (zfill2 n) = Some n"
  by (simp add: zfill2_def digit_val_digit)

lemma number_zfill4: "n < 10000 \<Longrightarrow> number 0 (zfill4 n) = Some n"
proof -
  assume "n < 10000"
  then have "n div 10 div 10 div 10 < 10" by simp
  then have "n div 10 div 10 div 10 mod 10 = n div 10 div 10 div 10" by simp
  then show ?thesis
    by (simp add: zfill4_def digit_val_digit div_chain)
qed

lemma number_zfill6: "n < 1000000 \<Longrightarrow> number 0 (zfill6 n) = Some n"
proof -
  assume "n < 1000000"
  then have "n div 10 div 10 div 10 div 10 div 10 < 10" by simp
  then have "n div 10 div 10 div 10 div 10 div 10 mod 10 = n div 10 div 10 div 10 div 10 div 10"
    by simp
  then show ?thesis
    by (simp add: zfill6_def digit_val_digit div_chain)
qed

lemma days_le: "days_in_month y m \<le> 31"
  by (simp add: days_in_month_def)

lemma parse_fraction_zfill6:
  "n < 1000000 \<Longrightarrow> parse_fraction (CHR ''.'' # zfill6 n) = Some n"
  by (simp add: parse_fraction_def number_zfill6) (simp add: zfill6_def)

lemma parse_isoformat:
  assumes "valid_datetime t"
  shows "parse_iso8601 (isoformat t) = Some t"
proof -
  from assms have b: "year t < 10000" "month t < 100" "day t < 100" "hour t < 100"
    "minute t < 100" "second t < 100" "microsecond t < 1000000"
    using days_le [of "year t" "month t"] by (auto simp: valid_datetime_def)
  obtain y mo dd h mi sec fr where parts:
    "y = zfill4 (year t)" "mo = zfill2 (month t)" "dd = zfill2 (day t)" "h = zfill2 (hour t)"
    "mi = zfill2 (minute t)" "sec = zfill2 (second t)"
    "fr = (if microsecond t = 0 then [] else CHR ''.'' # zfill6 (microsecond t))"
    by blast
  have len: "length y = 4" "length mo = 2" "length dd = 2" "length h = 2" "length mi = 2" "length sec = 2"
    by (simp_all add: parts zfill2_def zfill4_def)
  have s: "isoformat t = y @ CHR ''-'' # mo @ CHR ''-'' # dd @ CHR ''T'' # h @ CHR '':'' # mi @ CHR '':'' # sec @ fr"
    by (simp add: isoformat_def parts)
  have n: "number 0 y = Some (year t)" "number 0 mo = Some (month t)" "number 0 dd = Some (day t)"
    "number 0 h = Some (hour t)" "number 0 mi = Some (minute t)" "number 0 sec = Some (second t)"
    using b by (simp_all add: parts number_zfill2 number_zfill4)
  have f: "parse_fraction fr = Some (microsecond t)"
  proof (cases "microsecond t = 0")
    case True
    then show ?thesis by (simp add: parts parse_fraction_def)
  next
    case False
    then show ?thesis using b by (simp add: parts parse_fraction_zfill6)
  qed
  have t4: "take 4 (isoformat t) = y" unfolding s using len by simp
  have d5: "take 2 (drop 5 (isoformat t)) = mo" unfolding s using len by simp
  have d8: "take 2 (drop 8 (isoformat t)) = dd" unfolding s using len by simp
  have d11: "take 2 (drop 11 (isoformat t)) = h" unfolding s using len by simp
  have d14: "take 2 (drop 14 (isoformat t)) = mi" unfolding s using len by simp
  have d17: "take 2 (drop 17 (isoformat t)) = sec" unfolding s using len by simp
  have d19: "drop 19 (isoformat t) = fr" unfolding s using len by simp
  have seps: "[isoformat t ! 4, isoformat t ! 7, isoformat t ! 10, isoformat t ! 13, isoformat t ! 16] = ''--T::''"
    unfolding s using len by (simp add: nth_append)
  have l: "\<not> length (isoformat t) < 19" unfolding s using len by simp
  have r: "\<lparr>year = year t, month = month t, day = day t, hour = hour t,
             minute = minute t, second = second t, microsecond = microsecond t\<rparr> = t"
    by simp
  show ?thesis
    unfolding parse_iso8601_def
    using assms by (simp add: l seps t4 d5 d8 d11 d14 d17 d19 n f r)
qed

lemma json_decode_encode:
  "is_json v \<Longrightarrow> json_encode f v = Inr j \<Longrightarrow> json_decode j = v"
  by (cases v) auto

lemma canonicalize_json:
  "list_all (\<lambda>kv. is_json (snd kv)) vs \<Longrightarrow>
   \<exists>obj. json_dumps f vs = Inr obj \<and> json_loads obj = vs"
proof (induction vs)
  case Nil
  then show ?case by (simp add: json_loads_def)
next
  case (Cons kv vs)
  obtain k v where kv: "kv = (k, v)" by (cases kv)
  from Cons.prems have v: "is_json v" by (simp add: kv)
  then obtain j where j: "json_encode f v = Inr j" by (cases v) auto
  from Cons obtain obj where "json_dumps f vs = Inr obj" "json_loads obj = vs" by auto
  with j json_decode_encode [OF v j] show ?case
    by (simp add: kv json_loads_def)
qed

text \<open>
  Claim C9 (serialization round trip): canonicalizing a temporal value and re-parsing the
  result as ISO-8601 yields an instant equal to the original, and canonicalizing a value
  that is already JSON-representable is the identity.

  For every datetime of the calendar, \<^verbatim>\<open>json_serial\<close> returns a string, the adapter
  puts that string in the datetime's place, and the ISO-8601 reader maps it back to the
  datetime; a dictionary whose values are \<^verbatim>\<open>None\<close>, booleans, integers and strings
  comes back from the adapter as it went in.
\<close>

theorem canonical_form_round_trip:
  "(valid_datetime t \<longrightarrow>
      (\<exists>s. json_serial (PDatetime t) = Inr s \<and>
           canonicalize [(k, PDatetime t)] = Inr [(k, PStr s)] \<and>
           parse_iso8601 s = Some t))
   \<and> (list_all (\<lambda>kv. is_json (snd kv)) vs \<longrightarrow> canonicalize vs = Inr vs)"
proof (intro conjI impI)
  assume "valid_datetime t"
  then have "parse_iso8601 (isoformat t) = Some t"
    by (rule parse_isoformat)
  then show "\<exists>s. json_serial (PDatetime t) = Inr s \<and>
           canonicalize [(k, PDatetime t)] = Inr [(k, PStr s)] \<and> parse_iso8601 s = Some t"
    by (simp add: json_serial_def canonicalize_def json_loads_def)
next
  assume "list_all (\<lambda>kv. is_json (snd kv)) vs"
  from canonicalize_json [OF this, of "Some json_serial"]
  show "canonicalize vs = Inr vs"
    by (auto simp: canonicalize_def)
qed

theorem canonical_form_round_trip_witness:
  "valid_datetime t1
   \<and> canonicalize [(''updated_at'', PDatetime t1)] =
       Inr [(''updated_at'', PStr ''2024-03-17T18:04:59.000120'')]
   \<and> parse_iso8601 ''2024-03-17T18:04:59.000120'' = Some t1
   \<and> canonicalize [(''name'', PStr ''Pool''), (''confirmed'', PBool True),
                    (''created_by_user'', PInt 7), (''description'', PNone)] =
       Inr [(''name'', PStr ''Pool''), (''confirmed'', PBool True),
            (''created_by_user'', PInt 7), (''description'', PNone)]"
proof -
  let ?vs = "[(''name'', PStr ''Pool''), (''confirmed'', PBool True),
              (''created_by_user'', PInt 7), (''description'', PNone)]"
  have v: "valid_datetime t1"
    by (simp add: valid_datetime_def t1_def days_in_month_def)
  have j: "list_all (\<lambda>kv. is_json (snd kv)) ?vs"
    by simp
  have s: "json_serial (PDatetime t1) = Inr ''2024-03-17T18:04:59.000120''"
    by (simp add: json_serial_def isoformat_def t1_def zfill2_def zfill4_def zfill6_def
          digit_def)
  from canonical_form_round_trip [of t1 "''updated_at''" ?vs] v j s
  show ?thesis by auto
qed

section \<open>The authorization gate: roles, expiry, missing roles\<close>

lemma one_or_none_Some: "one_or_none rs = Inr (Some r) \<Longrightarrow> rs = [r]"
  by (auto simp: one_or_none_def split: list.splits)

lemma one_or_none_Inl: "one_or_none rs = Inl e \<Longrightarrow> e = MultipleResultsFound"
  by (auto simp: one_or_none_def split: list.splits)

lemma roles_table: "tablename RolesDbModel = ''roles''"
  by (simp add: RolesDbModel_def)

lemma role_by_name_Some:
  assumes "role_by_name d n = Inr (Some r)"
  shows "r \<in> set (tables d ''roles'') \<and> getattr r ''name'' = PStr n"
proof -
  from assms have "filter (\<lambda>r. getattr r ''name'' = PStr n) (tables d ''roles'') = [r]"
    by (simp add: role_by_name_def roles_table one_or_none_Some)
  then have "r \<in> set (filter (\<lambda>r. getattr r ''name'' = PStr n) (tables d ''roles''))"
    by simp
  then show ?thesis by simp
qed

lemma role_by_name_Inl: "role_by_name d n = Inl e \<Longrightarrow> response_status e = 500"
  by (auto simp: role_by_name_def dest: one_or_none_Inl)

lemma user_by_id_Inl: "user_by_id d i = Inl e \<Longrightarrow> response_status e = 500"
  by (auto simp: user_by_id_def dest: one_or_none_Inl)

lemma distinct_role_ids:
  assumes "distinct (map (\<lambda>r. getattr r ''id'') (tables d ''roles''))"
    and "role_by_name d n = Inr (Some r)" and "role_by_name d n' = Inr (Some r')"
    and "n \<noteq> n'"
  shows "getattr r ''id'' \<noteq> getattr r' ''id''"
proof
  assume eq: "getattr r ''id'' = getattr r' ''id''"
  from assms(1) have "inj_on (\<lambda>r. getattr r ''id'') (set (tables d ''roles''))"
    by (simp add: distinct_map)
  with eq role_by_name_Some [OF assms(2)] role_by_name_Some [OF assms(3)] have "r = r'"
    by (auto dest: inj_onD)
  with role_by_name_Some [OF assms(2)] role_by_name_Some [OF assms(3)] assms(4) show False
    by simp
qed

text \<open>
  Claim C6 (role gating): an authenticated user whose live role is \<^verbatim>\<open>endUser\<close> is
  refused with Forbidden (403) by the gate for the roles \<^verbatim>\<open>admin\<close> and
  \<^verbatim>\<open>superAdmin\<close>; the gate admits the user whose live role is \<^verbatim>\<open>admin\<close>.

  The role table holds the three well-known roles, each found by its name, under
  distinct primary keys, and the user's row is found by the id the token resolved to.
  The live role is the role whose id the user's \<^verbatim>\<open>role_id\<close> carries.
\<close>

theorem admin_gate_denies_end_user_admits_admin:
  assumes admin: "role_by_name d ''admin'' = Inr (Some admin_role)"
    and super: "role_by_name d ''superAdmin'' = Inr (Some super_admin_role)"
    and endu: "role_by_name d ''endUser'' = Inr (Some end_user_role)"
    and keys: "distinct (map (\<lambda>r. getattr r ''id'') (tables d ''roles''))"
    and user: "user_by_id d (user_id current_user) = Inr (Some user_in_db)"
  shows "(getattr user_in_db ''role_id'' = getattr end_user_role ''id'' \<longrightarrow>
            super_admin_or_admin_required d current_user =
              Inl (HTTPException 403 ''Access denied.''))
       \<and> (getattr user_in_db ''role_id'' = getattr admin_role ''id'' \<longrightarrow>
            super_admin_or_admin_required d current_user = Inr current_user)"
proof -
  have ids: "get_role_ids d =
               Inr (getattr admin_role ''id'', getattr super_admin_role ''id'',
                    getattr end_user_role ''id'')"
    by (simp add: get_role_ids_def admin super endu)
  have "getattr end_user_role ''id'' \<noteq> getattr admin_role ''id''"
    using distinct_role_ids [OF keys endu admin] by simp
  moreover have "getattr end_user_role ''id'' \<noteq> getattr super_admin_role ''id''"
    using distinct_role_ids [OF keys endu super] by simp
  ultimately show ?thesis
    by (simp add: super_admin_or_admin_required_def ids user)
qed

theorem admin_gate_denies_end_user_admits_admin_witness:
  "super_admin_or_admin_required db0 bob = Inl (HTTPException 403 ''Access denied.'')
   \<and> super_admin_or_admin_required db0 alice = Inr alice"
proof -
  have roles: "role_by_name db0 ''admin'' = Inr (Some (role_row 1 ''admin''))"
    "role_by_name db0 ''superAdmin'' = Inr (Some (role_row 2 ''superAdmin''))"
    "role_by_name db0 ''endUser'' = Inr (Some (role_row 3 ''endUser''))"
    by (simp_all add: role_by_name_def one_or_none_def getattr_def db0_def RolesDbModel_def
          role_row_def)
  have keys: "distinct (map (\<lambda>r. getattr r ''id'') (tables db0 ''roles''))"
    by (simp add: db0_def getattr_def role_row_def)
  have users: "user_by_id db0 (user_id bob) = Inr (Some (user_row 8 ''bob@example.org'' 3))"
    "user_by_id db0 (user_id alice) = Inr (Some (user_row 7 ''alice@example.org'' 1))"
    by (simp_all add: user_by_id_def one_or_none_def getattr_def db0_def UserDbModel_def
          user_row_def bob_def alice_def)
  have "getattr (user_row 8 ''bob@example.org'' 3) ''role_id'' =
          getattr (role_row 3 ''endUser'') ''id''"
    "getattr (user_row 7 ''alice@example.org'' 1) ''role_id'' =
          getattr (role_row 1 ''admin'') ''id''"
    by (simp_all add: getattr_def user_row_def role_row_def)
  with admin_gate_denies_end_user_admits_admin [OF roles keys users(1)]
    admin_gate_denies_end_user_admits_admin [OF roles keys users(2)]
  show ?thesis by simp
qed

text \<open>
  Claim C7 (expiry): a credential whose expiry lies in the past fails with Expired, an
  error told apart from plain Unauthenticated, even when it is otherwise well-formed and
  its signature is valid.

  For a well-formed token with a valid signature and an \<^verbatim>\<open>exp\<close> claim before the
  current time, whatever its subject and whatever the database holds,
  \<^verbatim>\<open>get_current_user_from_token\<close> raises \<^verbatim>\<open>token_expired_exception\<close>: status 401 as
  \<^verbatim>\<open>credentials_exception\<close>, and a different exception.
\<close>

theorem expired_token_fails_expired:
  assumes "well_formed token" and "signature_valid token"
    and "claim_exp token = Some e" and "e < utcnow"
  shows "get_current_user_from_token utcnow d token = Inl token_expired_exception
       \<and> token_expired_exception \<noteq> credentials_exception
       \<and> response_status token_expired_exception = 401"
  using assms
  by (simp add: get_current_user_from_token_def jwt_decode_def token_expired_exception_def
        credentials_exception_def)

theorem expired_token_fails_expired_witness:
  "get_current_user_from_token 2001 db0 (token_of ''bob@example.org'') =
     Inl (HTTPException 401 ''Token has expired'')
   \<and> get_current_user_from_token 2000 db0 (token_of ''bob@example.org'') = Inr bob"
proof -
  have "well_formed (token_of ''bob@example.org'')"
    "signature_valid (token_of ''bob@example.org'')"
    "claim_exp (token_of ''bob@example.org'') = Some 2000" "(2000::int) < 2001"
    by (simp_all add: token_of_def)
  from expired_token_fails_expired [OF this, of db0]
  have "get_current_user_from_token 2001 db0 (token_of ''bob@example.org'') =
          Inl (HTTPException 401 ''Token has expired'')"
    by (simp add: token_expired_exception_def)
  moreover have "get_current_user_from_token 2000 db0 (token_of ''bob@example.org'') = Inr bob"
    by (simp add: get_current_user_from_token_def jwt_decode_def get_user_def
          query_first_def getattr_def db0_def token_of_def bob_def UserDbModel_def
          user_row_def)
  ultimately show ?thesis by simp
qed

lemma get_role_ids_missing:
  assumes "role_by_name d ''admin'' = Inr None \<or> role_by_name d ''superAdmin'' = Inr None \<or>
           role_by_name d ''endUser'' = Inr None"
  shows "\<exists>e. get_role_ids d = Inl e \<and> response_status e = 500"
proof (cases "role_by_name d ''admin''")
  case (Inl e)
  then show ?thesis by (simp add: get_role_ids_def role_by_name_Inl)
next
  case admin: (Inr a)
  show ?thesis
  proof (cases a)
    case None
    with admin show ?thesis by (simp add: get_role_ids_def)
  next
    case a: (Some admin_role)
    show ?thesis
    proof (cases "role_by_name d ''superAdmin''")
      case (Inl e)
      with admin a show ?thesis by (simp add: get_role_ids_def role_by_name_Inl)
    next
      case super: (Inr s)
      show ?thesis
      proof (cases s)
        case None
        with admin a super show ?thesis by (simp add: get_role_ids_def)
      next
        case s: (Some super_admin_role)
        show ?thesis
        proof (cases "role_by_name d ''endUser''")
          case (Inl e)
          with admin a super s show ?thesis by (simp add: get_role_ids_def role_by_name_Inl)
        next
          case (Inr u)
          with admin a super s assms have "u = None" by auto
          with Inr admin a super s show ?thesis by (simp add: get_role_ids_def)
        qed
      qed
    qed
  qed
qed

text \<open>
  Claim C8 (fail closed): on every authorization check, if any of the well-known role
  records \<^verbatim>\<open>admin\<close>, \<^verbatim>\<open>superAdmin\<close>, \<^verbatim>\<open>endUser\<close> cannot be found in the role
  table, the gate fails with InternalError (500) and does not admit the caller.

  Only the gates built on \<^verbatim>\<open>get_role_ids\<close> look all three roles up.
  \<^verbatim>\<open>super_admin_required\<close> and \<^verbatim>\<open>admin_required\<close> query the one role they compare
  with: without the role \<^verbatim>\<open>endUser\<close> in the table, \<^verbatim>\<open>super_admin_required\<close> admits
  a super admin. As amended: each gate answers status 500 when a role record that it
  consults is missing, that is any of the three for \<^verbatim>\<open>super_admin_or_admin_required\<close>,
  \<^verbatim>\<open>superAdmin\<close> for \<^verbatim>\<open>super_admin_required\<close> and \<^verbatim>\<open>admin\<close> for
  \<^verbatim>\<open>admin_required\<close>.
\<close>

theorem gates_fail_closed_on_consulted_roles:
  "((role_by_name d ''admin'' = Inr None \<or> role_by_name d ''superAdmin'' = Inr None \<or>
     role_by_name d ''endUser'' = Inr None) \<longrightarrow>
      (\<exists>e. super_admin_or_admin_required d current_user = Inl e \<and> response_status e = 500))
   \<and> (role_by_name d ''superAdmin'' = Inr None \<longrightarrow>
      (\<exists>e. super_admin_required d current_user = Inl e \<and> response_status e = 500))
   \<and> (role_by_name d ''admin'' = Inr None \<longrightarrow>
      (\<exists>e. admin_required d current_user = Inl e \<and> response_status e = 500))"
proof (intro conjI impI)
  assume "role_by_name d ''admin'' = Inr None \<or> role_by_name d ''superAdmin'' = Inr None \<or>
          role_by_name d ''endUser'' = Inr None"
  from get_role_ids_missing [OF this]
  show "\<exists>e. super_admin_or_admin_required d current_user = Inl e \<and> response_status e = 500"
    by (auto simp: super_admin_or_admin_required_def)
next
  assume "role_by_name d ''superAdmin'' = Inr None"
  then show "\<exists>e. super_admin_required d current_user = Inl e \<and> response_status e = 500"
    by (cases "user_by_id d (user_id current_user)")
       (auto simp: super_admin_required_def user_by_id_Inl none_has_no_attribute_def
             split: option.splits)
next
  assume "role_by_name d ''admin'' = Inr None"
  then show "\<exists>e. admin_required d current_user = Inl e \<and> response_status e = 500"
    by (cases "user_by_id d (user_id current_user)")
       (auto simp: admin_required_def user_by_id_Inl none_has_no_attribute_def
             split: option.splits)
qed

theorem gates_fail_closed_on_consulted_roles_witness:
  "role_by_name db_unseeded ''admin'' = Inr None
   \<and> role_by_name db_unseeded ''superAdmin'' = Inr None
   \<and> (\<exists>e. super_admin_or_admin_required db_unseeded root = Inl e \<and> response_status e = 500)
   \<and> (\<exists>e. super_admin_required db_unseeded root = Inl e \<and> response_status e = 500)
   \<and> (\<exists>e. admin_required db_unseeded root = Inl e \<and> response_status e = 500)"
proof -
  have missing: "role_by_name db_unseeded ''admin'' = Inr None"
    "role_by_name db_unseeded ''superAdmin'' = Inr None"
    by (simp_all add: role_by_name_def one_or_none_def db_unseeded_def set_table_def
          RolesDbModel_def)
  with gates_fail_closed_on_consulted_roles [of db_unseeded root]
  show ?thesis by blast
qed

theorem super_admin_gate_admits_without_end_user_role:
  "role_by_name db_no_end_user ''endUser'' = Inr None
   \<and> super_admin_required db_no_end_user root = Inr root"
  by (simp add: role_by_name_def user_by_id_def one_or_none_def getattr_def
        super_admin_required_def db_no_end_user_def db0_def set_table_def root_def
        RolesDbModel_def UserDbModel_def role_row_def user_row_def)

section \<open>Deleting a role: a guard that is no gate\<close>

lemma is_super_admin_never_http:
  "is_super_admin d current_user = Inl e \<Longrightarrow> response_status e = 500"
  by (cases "role_by_name d ''superAdmin''"; cases "user_by_id d (user_id current_user)")
     (auto simp: is_super_admin_def role_by_name_Inl user_by_id_Inl none_has_no_attribute_def
           split: option.splits if_splits)

text \<open>
  Claim C10 (guard of the role deletion): for every authenticated caller
  \<^verbatim>\<open>is_super_admin\<close> returns a boolean and never raises Forbidden, so that role
  deletion proceeds whatever the caller's live role: any authenticated user can delete a
  role.

  The first half holds, the conclusion does not: the endpoint calls \<^verbatim>\<open>delete_record\<close>
  without \<^verbatim>\<open>current_user_id\<close>, so for an existing role the call raises \<^verbatim>\<open>TypeError\<close>
  and the role stays, for an end user and for a super admin alike. As amended:
  \<^verbatim>\<open>is_super_admin\<close> never raises Forbidden; for an authenticated caller whose user row
  exists, with the role \<^verbatim>\<open>superAdmin\<close> in the table, it returns whether the caller's
  role is that role, and the route, which drops the value, runs the body of
  \<^verbatim>\<open>delete_role\<close> for every such caller whatever the live role.
\<close>

theorem is_super_admin_admits_every_caller:
  "(\<forall>e. is_super_admin d' caller = Inl e \<longrightarrow> response_status e \<noteq> 403)
   \<and> (get_current_user_from_token utcnow d token = Inr current_user \<and>
      role_by_name d ''superAdmin'' = Inr (Some super_admin_role) \<and>
      user_by_id d (user_id current_user) = Inr (Some user_in_db) \<longrightarrow>
        is_super_admin d current_user =
          Inr (getattr user_in_db ''role_id'' = getattr super_admin_role ''id'')
        \<and> delete_role E utcnow d token role_id = delete_role_body E d role_id)"
proof (intro conjI allI impI)
  fix e
  assume "is_super_admin d' caller = Inl e"
  from is_super_admin_never_http [OF this] show "response_status e \<noteq> 403"
    by simp
next
  assume a: "get_current_user_from_token utcnow d token = Inr current_user \<and>
      role_by_name d ''superAdmin'' = Inr (Some super_admin_role) \<and>
      user_by_id d (user_id current_user) = Inr (Some user_in_db)"
  then show verdict: "is_super_admin d current_user =
          Inr (getattr user_in_db ''role_id'' = getattr super_admin_role ''id'')"
    by (simp add: is_super_admin_def)
  from a verdict show "delete_role E utcnow d token role_id = delete_role_body E d role_id"
    by (simp add: delete_role_def)
qed

theorem is_super_admin_admits_every_caller_witness:
  "get_current_user_from_token 1000 db0 (token_of ''bob@example.org'') = Inr bob
   \<and> is_super_admin db0 bob = Inr False
   \<and> delete_role lenient 1000 db0 (token_of ''bob@example.org'') 3 =
       delete_role_body lenient db0 3
   \<and> is_super_admin db_unseeded bob = Inl (none_has_no_attribute ''id'')
   \<and> response_status (none_has_no_attribute ''id'') \<noteq> 403"
proof -
  have auth: "get_current_user_from_token 1000 db0 (token_of ''bob@example.org'') = Inr bob"
    by (simp add: get_current_user_from_token_def jwt_decode_def get_user_def
          query_first_def getattr_def db0_def token_of_def bob_def UserDbModel_def
          user_row_def)
  have role: "role_by_name db0 ''superAdmin'' = Inr (Some (role_row 2 ''superAdmin''))"
    by (simp add: role_by_name_def one_or_none_def getattr_def db0_def RolesDbModel_def
          role_row_def)
  have user: "user_by_id db0 (user_id bob) = Inr (Some (user_row 8 ''bob@example.org'' 3))"
    by (simp add: user_by_id_def one_or_none_def getattr_def db0_def UserDbModel_def
          user_row_def bob_def)
  have raised: "is_super_admin db_unseeded bob = Inl (none_has_no_attribute ''id'')"
    by (simp add: is_super_admin_def role_by_name_def user_by_id_def one_or_none_def
          getattr_def db_unseeded_def set_table_def db0_def RolesDbModel_def UserDbModel_def
          user_row_def bob_def)
  note gate = is_super_admin_admits_every_caller
         [of db_unseeded bob 1000 db0 "token_of ''bob@example.org''" bob
             "role_row 2 ''superAdmin''" "user_row 8 ''bob@example.org'' 3" lenient 3]
  from gate raised have "response_status (none_has_no_attribute ''id'') \<noteq> 403"
    by blast
  moreover from gate auth role user
  have "is_super_admin db0 bob = Inr False
        \<and> delete_role lenient 1000 db0 (token_of ''bob@example.org'') 3 =
            delete_role_body lenient db0 3"
    by (simp add: getattr_def user_row_def role_row_def)
  ultimately show ?thesis
    using auth raised by simp
qed

theorem delete_role_deletes_nothing:
  "get_current_user_from_token 1000 db0 (token_of ''bob@example.org'') = Inr bob
   \<and> snd (delete_role lenient 1000 db0 (token_of ''bob@example.org'') 3) =
       Inl (TypeError (''delete_record() missing 1 required positional argument: '' @
                       repr_str ''current_user_id''))
   \<and> tables (fst (delete_role lenient 1000 db0 (token_of ''bob@example.org'') 3)) ''roles'' =
       tables db0 ''roles''
   \<and> snd (delete_role lenient 1000 db0 (token_of ''root@example.org'') 3) =
       Inl (TypeError (''delete_record() missing 1 required positional argument: '' @
                       repr_str ''current_user_id''))"
  by (simp add: delete_role_def delete_role_body_def call_delete_record_def
        get_current_user_from_token_def jwt_decode_def get_user_def query_first_def
        is_super_admin_def role_by_name_def user_by_id_def one_or_none_def getattr_def
        db0_def token_of_def bob_def RolesDbModel_def UserDbModel_def role_row_def
        user_row_def)

end
